theory Spec2Isabelle
  imports Main "HOL-Library.Word"
begin

section \<open>JavaScript values used by \<open>src/blobs.ts\<close>\<close>

subsection \<open>Strings\<close>

text \<open>
  A JavaScript string is a sequence of UTF-16 code units. String literals of the source
  are written \<open>js ''...''\<close>.
\<close>

type_synonym jschar = "16 word"
type_synonym jsstring = "jschar list"

definition js :: "string \<Rightarrow> jsstring" where
  "js s = map of_char s"

text \<open>
  \<open>String.prototype.trim\<close> removes white space and line terminators from both ends:
  TAB, LF, VT, FF, CR, SP, NBSP, U+1680, U+2000 to U+200A, U+2028, U+2029, U+202F,
  U+205F, U+3000 and U+FEFF.
\<close>

definition is_white_space :: "jschar \<Rightarrow> bool" where
  "is_white_space c =
     ((0x0009 \<le> c \<and> c \<le> 0x000D) \<or> c = 0x0020 \<or> c = 0x00A0 \<or> c = 0x1680 \<or>
      (0x2000 \<le> c \<and> c \<le> 0x200A) \<or> c = 0x2028 \<or> c = 0x2029 \<or> c = 0x202F \<or>
      c = 0x205F \<or> c = 0x3000 \<or> c = 0xFEFF)"

definition trim_start :: "jsstring \<Rightarrow> jsstring" where
  "trim_start s = dropWhile is_white_space s"

definition trim :: "jsstring \<Rightarrow> jsstring" where
  "trim s = rev (dropWhile is_white_space (rev (dropWhile is_white_space s)))"

text \<open>\<open>s.split(sep)\<close> for a separator of one code unit: the pieces between the separators.\<close>

fun split :: "jschar \<Rightarrow> jsstring \<Rightarrow> jsstring list" where
  "split sep [] = [[]]"
| "split sep (c # cs) =
     (if c = sep then [] # split sep cs
      else (case split sep cs of p # ps \<Rightarrow> (c # p) # ps | [] \<Rightarrow> [[c]]))"

text \<open>\<open>xs[i]\<close> on an array: \<open>undefined\<close> (here \<open>None\<close>) out of range.\<close>

definition at_index :: "'a list \<Rightarrow> nat \<Rightarrow> 'a option" where
  "at_index xs i = (if i < length xs then Some (xs ! i) else None)"

subsection \<open>Numbers\<close>

text \<open>
  \<open>parseInt\<close> returns \<open>NaN\<close>, an integer-valued double or an infinity. A finite result is
  kept as the integer it denotes (\<open>-0\<close> and \<open>+0\<close> print the same and are not told apart).
\<close>

datatype number = NaN | Finite int | PosInfinity | NegInfinity

definition isNaN :: "number \<Rightarrow> bool" where
  "isNaN x = (x = NaN)"

fun bit_length :: "nat \<Rightarrow> nat" where
  "bit_length n = (if n = 0 then 0 else Suc (bit_length (n div 2)))"

declare bit_length.simps [simp del]

text \<open>
  The double nearest to a natural number, ties to the even significand (53 bits); \<open>None\<close>
  when the rounded value reaches \<open>2 ^ 1024\<close>, where the double is an infinity.
\<close>

definition round_to_double :: "nat \<Rightarrow> nat option" where
  "round_to_double n =
     (if bit_length n \<le> 53 then Some n
      else
        let e = bit_length n - 53;
            q = n div 2 ^ e;
            r = n mod 2 ^ e;
            half = 2 ^ (e - 1);
            q' = (if half < r \<or> (r = half \<and> odd q) then q + 1 else q);
            v = q' * 2 ^ e
        in if v < 2 ^ 1024 then Some v else None)"

definition to_number :: "bool \<Rightarrow> nat \<Rightarrow> number" where
  "to_number negative n =
     (case round_to_double n of
        Some v \<Rightarrow> Finite (if negative then - int v else int v)
      | None \<Rightarrow> (if negative then NegInfinity else PosInfinity))"

text \<open>The value of a code unit as a digit of the radix (10 or 16), if it is one.\<close>

definition digit_of :: "nat \<Rightarrow> jschar \<Rightarrow> nat option" where
  "digit_of radix c =
     (if 0x30 \<le> c \<and> c \<le> 0x39 then Some (unat c - 48)
      else if radix = 16 \<and> 0x41 \<le> c \<and> c \<le> 0x46 then Some (unat c - 55)
      else if radix = 16 \<and> 0x61 \<le> c \<and> c \<le> 0x66 then Some (unat c - 87)
      else None)"

definition is_radix_digit :: "nat \<Rightarrow> jschar \<Rightarrow> bool" where
  "is_radix_digit radix c = (digit_of radix c \<noteq> None)"

definition digits_value :: "nat \<Rightarrow> jsstring \<Rightarrow> nat" where
  "digits_value radix z = foldl (\<lambda>a c. a * radix + (case digit_of radix c of Some d \<Rightarrow> d | None \<Rightarrow> 0)) 0 z"

text \<open>
  \<open>parseInt(string)\<close> with no radix argument. The argument is converted to a string
  (\<open>undefined\<close> gives \<open>"undefined"\<close>), leading white space is dropped, a sign is read,
  a prefix \<open>0x\<close> or \<open>0X\<close> selects radix 16, and the longest prefix of digits is
  converted; no digit gives \<open>NaN\<close>. The integer the digits denote is rounded to the
  nearest double, as V8 does for a digit string of any length.
\<close>

definition parseInt :: "jsstring option \<Rightarrow> number" where
  "parseInt arg =
     (let inputString = (case arg of Some s \<Rightarrow> s | None \<Rightarrow> js ''undefined'');
          s0 = trim_start inputString;
          negative = (s0 \<noteq> [] \<and> hd s0 = 0x2D);
          s1 = (if s0 \<noteq> [] \<and> (hd s0 = 0x2B \<or> hd s0 = 0x2D) then tl s0 else s0);
          hex = (take 2 s1 = js ''0x'' \<or> take 2 s1 = js ''0X'');
          radix = (if hex then 16 else 10);
          s2 = (if hex then drop 2 s1 else s1);
          z = takeWhile (is_radix_digit radix) s2
      in if z = [] then NaN else to_number negative (digits_value radix z))"

text \<open>The decimal digits of a natural number, without leading zeros.\<close>

definition digit_char :: "nat \<Rightarrow> jschar" where
  "digit_char d = of_nat (48 + d)"

fun decimal :: "nat \<Rightarrow> jsstring" where
  "decimal n = (if n < 10 then [digit_char n] else decimal (n div 10) @ [digit_char (n mod 10)])"

declare decimal.simps [simp del]

text \<open>
  \<open>Number::toString\<close> (radix 10) of an integer-valued double \<open>x > 0\<close> prints the decimal
  number with the fewest significant digits among those that convert back to \<open>x\<close>; of
  several, the one nearest to \<open>x\<close>, then the one with the even last digit. With \<open>j\<close>
  trailing zeros the candidates are the two multiples of \<open>10 ^ j\<close> around \<open>x\<close>.
\<close>

definition candidates :: "nat \<Rightarrow> nat \<Rightarrow> nat list" where
  "candidates x j =
     (let lo = (x div 10 ^ j) * 10 ^ j; hi = lo + 10 ^ j
      in filter (\<lambda>y. 0 < y \<and> round_to_double y = Some x) [lo, hi])"

definition nearest :: "nat \<Rightarrow> nat \<Rightarrow> nat list \<Rightarrow> nat" where
  "nearest x j ys =
     (case ys of
        [] \<Rightarrow> x
      | [y] \<Rightarrow> y
      | lo # hi # _ \<Rightarrow>
          if x - lo < hi - x then lo
          else if hi - x < x - lo then hi
          else if even (lo div 10 ^ j) then lo else hi)"

definition shortest_decimal :: "nat \<Rightarrow> nat \<times> nat" where
  "shortest_decimal x =
     (case filter (\<lambda>j. candidates x j \<noteq> []) (rev [0..<Suc (length (decimal x))]) of
        [] \<Rightarrow> (x, 0)
      | j # _ \<Rightarrow> (nearest x j (candidates x j), j))"

definition nat_to_string :: "nat \<Rightarrow> jsstring" where
  "nat_to_string x =
     (if x = 0 then js ''0''
      else
        let (y, j) = shortest_decimal x;
            n = length (decimal y);
            s = decimal (y div 10 ^ j)
        in if n \<le> 21 then decimal y
           else if length s = 1 then s @ js ''e+'' @ decimal (n - 1)
           else [hd s] @ js ''.'' @ tl s @ js ''e+'' @ decimal (n - 1))"

definition number_to_string :: "number \<Rightarrow> jsstring" where
  "number_to_string x =
     (case x of
        NaN \<Rightarrow> js ''NaN''
      | PosInfinity \<Rightarrow> js ''Infinity''
      | NegInfinity \<Rightarrow> js ''-Infinity''
      | Finite i \<Rightarrow> (if i < 0 then js ''-'' @ nat_to_string (nat (- i)) else nat_to_string (nat i)))"

subsection \<open>Errors, values and the process environment\<close>

text \<open>A thrown \<open>Error\<close> or \<open>TypeError\<close>, with its message.\<close>

datatype js_error = Error jsstring | TypeError jsstring

text \<open>
  \<open>process.env\<close>: the variables in the order \<open>Object.keys\<close> enumerates them.
  \<open>process.env[k]\<close> is the value of the first entry named \<open>k\<close>, \<open>undefined\<close>
  (\<open>None\<close>) when there is none.
\<close>

type_synonym process_env = "(jsstring \<times> jsstring) list"

definition env_keys :: "process_env \<Rightarrow> jsstring list" where
  "env_keys env = map fst env"

definition env_get :: "process_env \<Rightarrow> jsstring \<Rightarrow> jsstring option" where
  "env_get env k = map_of env k"

text \<open>\<open>!s?.length\<close> for \<open>s\<close> a string or \<open>undefined\<close>.\<close>

definition no_length :: "jsstring option \<Rightarrow> bool" where
  "no_length s = (case s of None \<Rightarrow> True | Some u \<Rightarrow> length u = 0)"

text \<open>
  Modelled from the spec: the type \<open>Nilable\<close> is imported from \<open>./types\<close>, which is not
  among the sources. The specification calls the parameter an optional container override,
  so a \<open>Nilable<string>\<close> is a string, \<open>undefined\<close> or \<open>null\<close>. The source reads it only
  through \<open>?.\<close>, which treats \<open>undefined\<close> and \<open>null\<close> alike: both are \<open>None\<close>.
\<close>

type_synonym nilable_string = "jsstring option"

text \<open>
  The values a caller can pass where the source expects options or a function. A function
  takes the environment it reads, the connection name and the container, and returns a
  value or throws.
\<close>

datatype 'o js_value =
    JUndefined
  | JNull
  | JBoolean bool
  | JNumber number
  | JString jsstring
  | JObject 'o
  | JFunction "process_env \<Rightarrow> jsstring \<Rightarrow> nilable_string \<Rightarrow> js_error + 'o js_value"

fun typeof :: "'o js_value \<Rightarrow> jsstring" where
  "typeof JUndefined = js ''undefined''"
| "typeof JNull = js ''object''"
| "typeof (JBoolean b) = js ''boolean''"
| "typeof (JNumber x) = js ''number''"
| "typeof (JString s) = js ''string''"
| "typeof (JObject obj) = js ''object''"
| "typeof (JFunction f) = js ''function''"

section \<open>The connection resolver\<close>

record blob_storage_client_options =
  url :: jsstring

record container_client_options = blob_storage_client_options +
  container :: jsstring

text \<open>The regular expression \<open>/^(AZURE_STORAGE_CONNECTION_)(\\d+)$/\<close>.\<close>

definition is_decimal_digit :: "jschar \<Rightarrow> bool" where
  "is_decimal_digit c = (0x30 \<le> c \<and> c \<le> 0x39)"

definition r_test :: "jsstring \<Rightarrow> bool" where
  "r_test k =
     (let p = js ''AZURE_STORAGE_CONNECTION_''; d = drop (length p) k
      in take (length p) k = p \<and> d \<noteq> [] \<and> list_all is_decimal_digit d)"

definition getAzureStorageConnectionNrFromEnvVar :: "process_env \<Rightarrow> jsstring \<Rightarrow> js_error + number" where
  "getAzureStorageConnectionNrFromEnvVar env name =
     (let nrs = map (\<lambda>k. at_index (split 0x5F k) 3)
                  (filter (\<lambda>k. map_option trim (env_get env k) = Some name)
                    (filter r_test (env_keys env)));
          connectionNr = parseInt (case nrs of [] \<Rightarrow> None | nr # _ \<Rightarrow> nr)
      in if isNaN connectionNr
         then Inl (Error (js ''No azure storage connection '' @ name @ js '' found or defined''))
         else Inr connectionNr)"

definition defaultGetBlobStorageClientOptions ::
    "process_env \<Rightarrow> jsstring \<Rightarrow> js_error + blob_storage_client_options" where
  "defaultGetBlobStorageClientOptions env name =
     (case getAzureStorageConnectionNrFromEnvVar env name of
        Inl e \<Rightarrow> Inl e
      | Inr connectionNr \<Rightarrow>
          (let url = map_option trim
                 (env_get env (js ''AZURE_STORAGE_CONNECTION_'' @ number_to_string connectionNr @ js ''_URL''))
           in case url of
                None \<Rightarrow> Inl (Error (js ''Azure storage connection '' @ name @ js '' not found''))
              | Some u \<Rightarrow>
                  if no_length url
                  then Inl (Error (js ''Azure storage connection '' @ name @ js '' not found''))
                  else Inr \<lparr>url = u\<rparr>))"

definition defaultGetContainerClientOptions ::
    "process_env \<Rightarrow> jsstring \<Rightarrow> nilable_string \<Rightarrow> js_error + container_client_options" where
  "defaultGetContainerClientOptions env name container0 =
     (case getAzureStorageConnectionNrFromEnvVar env name of
        Inl e \<Rightarrow> Inl e
      | Inr connectionNr \<Rightarrow>
          (case defaultGetBlobStorageClientOptions env name of
             Inl e \<Rightarrow> Inl e
           | Inr storageOpts \<Rightarrow>
               (let container1 = map_option trim container0;
                    container2 =
                      (if no_length container1
                       then map_option trim
                              (env_get env
                                 (js ''AZURE_STORAGE_CONNECTION_'' @ number_to_string connectionNr @ js ''_CONTAINER''))
                       else container1)
                in case container2 of
                     None \<Rightarrow> Inl (Error (js ''No container defined''))
                   | Some c \<Rightarrow>
                       if no_length container2 then Inl (Error (js ''No container defined''))
                       else Inr \<lparr>url = url storageOpts, container = c\<rparr>)))"

section \<open>The client factory builders\<close>

text \<open>
  The storage SDK is a parameter: \<open>BlobServiceClient.fromConnectionString\<close> and
  \<open>getContainerClient\<close> of the service client it returns. Either may throw, and either
  may be handed \<open>undefined\<close> by a provider whose options lack the field.
\<close>

record ('svc, 'cc) storage_sdk =
  fromConnectionString :: "jsstring option \<Rightarrow> js_error + 'svc"
  getContainerClient_of :: "'svc \<Rightarrow> jsstring option \<Rightarrow> js_error + 'cc"

text \<open>
  The destructuring \<open>const { url } = v\<close> and \<open>const { container, url } = v\<close>: a
  \<open>TypeError\<close> of the engine on \<open>undefined\<close> and \<open>null\<close> (the message here stands for
  the engine's own wording), the fields of an options object, and \<open>undefined\<close> for the
  fields of every other value.
\<close>

definition destructure_url ::
    "'a blob_storage_client_options_scheme js_value \<Rightarrow> js_error + jsstring option" where
  "destructure_url v =
     (case v of
        JUndefined \<Rightarrow> Inl (TypeError (js ''Cannot destructure property url of undefined''))
      | JNull \<Rightarrow> Inl (TypeError (js ''Cannot destructure property url of null''))
      | JObject obj \<Rightarrow> Inr (Some (url obj))
      | _ \<Rightarrow> Inr None)"

definition destructure_container_url ::
    "'a container_client_options_scheme js_value \<Rightarrow> js_error + (jsstring option \<times> jsstring option)" where
  "destructure_container_url v =
     (case v of
        JUndefined \<Rightarrow> Inl (TypeError (js ''Cannot destructure property container of undefined''))
      | JNull \<Rightarrow> Inl (TypeError (js ''Cannot destructure property container of null''))
      | JObject obj \<Rightarrow> Inr (Some (container obj), Some (url obj))
      | _ \<Rightarrow> Inr (None, None))"

text \<open>The default options functions as values: the default of the parameter \<open>optionsOrFunc\<close>.\<close>

definition defaultGetBlobStorageClientOptions_value :: "blob_storage_client_options js_value" where
  "defaultGetBlobStorageClientOptions_value =
     JFunction (\<lambda>env name _. map_sum id JObject (defaultGetBlobStorageClientOptions env name))"

definition defaultGetContainerClientOptions_value :: "container_client_options js_value" where
  "defaultGetContainerClientOptions_value =
     JFunction (\<lambda>env name c. map_sum id JObject (defaultGetContainerClientOptions env name c))"

text \<open>A parameter with a default takes it when the argument is \<open>undefined\<close> or omitted.\<close>

definition default_parameter :: "'o js_value \<Rightarrow> 'o js_value \<Rightarrow> 'o js_value" where
  "default_parameter dflt arg = (case arg of JUndefined \<Rightarrow> dflt | _ \<Rightarrow> arg)"

text \<open>Calling a value; one that is not a function cannot be called.\<close>

definition call :: "'o js_value \<Rightarrow> process_env \<Rightarrow> jsstring \<Rightarrow> nilable_string \<Rightarrow> js_error + 'o js_value" where
  "call f env name c =
     (case f of
        JFunction g \<Rightarrow> g env name c
      | _ \<Rightarrow> Inl (TypeError (js ''getOptions is not a function'')))"

definition createGetBlobServiceClientFactory ::
    "('svc, 'cc) storage_sdk \<Rightarrow> blob_storage_client_options js_value \<Rightarrow>
     js_error + (process_env \<Rightarrow> jsstring \<Rightarrow> js_error + 'svc)" where
  "createGetBlobServiceClientFactory sdk arg =
     (let optionsOrFunc = default_parameter defaultGetBlobStorageClientOptions_value arg;
          getOptions =
            (if typeof optionsOrFunc = js ''function'' then optionsOrFunc
             else JFunction (\<lambda>_ _ _. Inr optionsOrFunc))
      in if typeof getOptions \<noteq> js ''function''
         then Inl (TypeError (js ''optionsOrFunc must be a function or object''))
         else Inr (\<lambda>env name.
                case call getOptions env name None of
                  Inl e \<Rightarrow> Inl e
                | Inr v \<Rightarrow>
                    (case destructure_url v of
                       Inl e \<Rightarrow> Inl e
                     | Inr u \<Rightarrow> fromConnectionString sdk u)))"

definition createGetContainerClientFactory ::
    "('svc, 'cc) storage_sdk \<Rightarrow> container_client_options js_value \<Rightarrow>
     js_error + (process_env \<Rightarrow> jsstring \<Rightarrow> nilable_string \<Rightarrow> js_error + 'cc)" where
  "createGetContainerClientFactory sdk arg =
     (let optionsOrFunc = default_parameter defaultGetContainerClientOptions_value arg;
          getOptions =
            (if typeof optionsOrFunc = js ''function'' then optionsOrFunc
             else JFunction (\<lambda>_ _ _. Inr optionsOrFunc))
      in if typeof getOptions \<noteq> js ''function''
         then Inl (TypeError (js ''optionsOrFunc must be a function or object''))
         else Inr (\<lambda>env name customerContainer.
                case call getOptions env name customerContainer of
                  Inl e \<Rightarrow> Inl e
                | Inr v \<Rightarrow>
                    (case destructure_container_url v of
                       Inl e \<Rightarrow> Inl e
                     | Inr (c, u) \<Rightarrow>
                         (case fromConnectionString sdk u of
                            Inl e \<Rightarrow> Inl e
                          | Inr svc \<Rightarrow> getContainerClient_of sdk svc c))))"

text \<open>
  The two providers the module exports, built when it is loaded from the default options
  functions.
\<close>

definition getBlobServiceClient ::
    "('svc, 'cc) storage_sdk \<Rightarrow> js_error + (process_env \<Rightarrow> jsstring \<Rightarrow> js_error + 'svc)" where
  "getBlobServiceClient sdk = createGetBlobServiceClientFactory sdk defaultGetBlobStorageClientOptions_value"

definition getContainerClient ::
    "('svc, 'cc) storage_sdk \<Rightarrow>
     js_error + (process_env \<Rightarrow> jsstring \<Rightarrow> nilable_string \<Rightarrow> js_error + 'cc)" where
  "getContainerClient sdk = createGetContainerClientFactory sdk defaultGetContainerClientOptions_value"

section \<open>Vocabulary of the specification\<close>

text \<open>
  A key declares a connection name when it matches the pattern of the declaration keys and
  its trimmed value is the name; the first declaration is the first such key in
  enumeration order.
\<close>

definition declares :: "process_env \<Rightarrow> jsstring \<Rightarrow> jsstring \<Rightarrow> bool" where
  "declares env name k = (r_test k \<and> map_option trim (env_get env k) = Some name)"

definition first_declaration :: "process_env \<Rightarrow> jsstring \<Rightarrow> jsstring option" where
  "first_declaration env name = find (declares env name) (env_keys env)"

text \<open>The keys of the connection with index \<open>n\<close>, the index written in decimal.\<close>

definition declaration_key :: "nat \<Rightarrow> jsstring" where
  "declaration_key n = js ''AZURE_STORAGE_CONNECTION_'' @ decimal n"

definition url_key :: "nat \<Rightarrow> jsstring" where
  "url_key n = js ''AZURE_STORAGE_CONNECTION_'' @ decimal n @ js ''_URL''"

definition container_key :: "nat \<Rightarrow> jsstring" where
  "container_key n = js ''AZURE_STORAGE_CONNECTION_'' @ decimal n @ js ''_CONTAINER''"

text \<open>
  The effective container as the specification words it: the trimmed override when the
  override is given and not empty after trimming, otherwise the trimmed value the
  environment has under the container key \<open>ckey\<close>.
\<close>

definition effective_container :: "process_env \<Rightarrow> jsstring \<Rightarrow> jsstring option \<Rightarrow> jsstring option" where
  "effective_container env ckey override =
     (case override of
        None \<Rightarrow> map_option trim (env_get env ckey)
      | Some c \<Rightarrow> if trim c = [] then map_option trim (env_get env ckey) else Some (trim c))"

text \<open>
  The declaration keys as the specification words them: \<open>AZURE_STORAGE_CONNECTION_\<close>
  followed by one or more of the digits 0 to 9 and nothing else. The digits segment of
  such a key is what follows the prefix.
\<close>

definition declaration_key_digits :: "jsstring \<Rightarrow> jsstring option" where
  "declaration_key_digits k =
     (if 25 < length k \<and> take 25 k = js ''AZURE_STORAGE_CONNECTION_'' \<and>
         list_all (\<lambda>c. c \<in> set (js ''0123456789'')) (drop 25 k)
      then Some (drop 25 k) else None)"

text \<open>
  The digits segment of the first key, in enumeration order, that is a declaration key and
  whose trimmed value is the name.
\<close>

definition first_declared_digits :: "process_env \<Rightarrow> jsstring \<Rightarrow> jsstring option" where
  "first_declared_digits env name =
     (case find (\<lambda>k. declaration_key_digits k \<noteq> None \<and> map_option trim (env_get env k) = Some name)
             (env_keys env) of
        None \<Rightarrow> None
      | Some k \<Rightarrow> declaration_key_digits k)"

text \<open>The integer a string of decimal digits denotes, by the place of each digit.\<close>

fun decimal_number :: "jsstring \<Rightarrow> nat" where
  "decimal_number [] = 0"
| "decimal_number (c # cs) = (unat c - 48) * 10 ^ length cs + decimal_number cs"

text \<open>The environment of the example scenario of the specification.\<close>

definition example_env :: process_env where
  "example_env =
     [(js ''AZURE_STORAGE_CONNECTION_1'', js ''acme''),
      (js ''AZURE_STORAGE_CONNECTION_1_URL'', js ''https://x/''),
      (js ''AZURE_STORAGE_CONNECTION_1_CONTAINER'', js ''logs'')]"

text \<open>Environments on which the resolver is evaluated below.\<close>

definition env_two_declarations :: process_env where
  "env_two_declarations =
     [(js ''AZURE_STORAGE_CONNECTION_1'', js ''acme''),
      (js ''AZURE_STORAGE_CONNECTION_2'', js ''acme''),
      (js ''AZURE_STORAGE_CONNECTION_2_URL'', js ''https://x/'')]"

definition env_blank_url :: process_env where
  "env_blank_url =
     [(js ''AZURE_STORAGE_CONNECTION_1'', js ''acme''),
      (js ''AZURE_STORAGE_CONNECTION_1_URL'', js ''  '')]"

definition env_padded_url :: process_env where
  "env_padded_url =
     [(js ''AZURE_STORAGE_CONNECTION_1'', js ''acme''),
      (js ''AZURE_STORAGE_CONNECTION_1_URL'', js ''https://x/ '')]"

definition env_padded_name :: process_env where
  "env_padded_name =
     [(js ''AZURE_STORAGE_CONNECTION_1'', js '' acme''),
      (js ''AZURE_STORAGE_CONNECTION_1_URL'', js ''https://x/'')]"

definition env_large_index :: process_env where
  "env_large_index =
     [(js ''AZURE_STORAGE_CONNECTION_9007199254740993'', js ''acme''),
      (js ''AZURE_STORAGE_CONNECTION_9007199254740993_URL'', js ''https://x/'')]"

definition env_huge_index :: process_env where
  "env_huge_index =
     [(js ''AZURE_STORAGE_CONNECTION_'' @ replicate 400 0x39, js ''acme'')]"

definition env_leading_zeros :: process_env where
  "env_leading_zeros =
     [(js ''AZURE_STORAGE_CONNECTION_007'', js ''acme''),
      (js ''AZURE_STORAGE_CONNECTION_7_URL'', js ''https://x/''),
      (js ''AZURE_STORAGE_CONNECTION_7_CONTAINER'', js ''logs''),
      (js ''AZURE_STORAGE_CONNECTION_007_URL'', js ''https://y/''),
      (js ''AZURE_STORAGE_CONNECTION_007_CONTAINER'', js ''other'')]"

definition env_leading_zero_large :: process_env where
  "env_leading_zero_large =
     [(js ''AZURE_STORAGE_CONNECTION_09007199254740993'', js ''acme''),
      (js ''AZURE_STORAGE_CONNECTION_9007199254740993_URL'', js ''https://x/''),
      (js ''AZURE_STORAGE_CONNECTION_9007199254740993_CONTAINER'', js ''logs'')]"

definition env_no_container :: process_env where
  "env_no_container =
     [(js ''AZURE_STORAGE_CONNECTION_1'', js ''container''),
      (js ''AZURE_STORAGE_CONNECTION_1_URL'', js ''https://x/'')]"

section \<open>Facts about the string and number primitives\<close>

lemma digit_not_white_space: "is_decimal_digit c \<Longrightarrow> \<not> is_white_space c"
  by (auto simp: is_decimal_digit_def is_white_space_def word_le_nat_alt)

lemma digit_of_decimal: "is_decimal_digit c \<Longrightarrow> digit_of 10 c = Some (unat c - 48)"
  by (simp add: digit_of_def is_decimal_digit_def)

lemma is_radix_digit_10: "is_radix_digit 10 c = is_decimal_digit c"
  by (simp add: is_radix_digit_def digit_of_def is_decimal_digit_def)

lemma split_no_sep: "sep \<notin> set xs \<Longrightarrow> split sep xs = [xs]"
  by (induction xs) auto

lemma split_append_sep: "sep \<notin> set xs \<Longrightarrow> split sep (xs @ sep # ys) = xs # split sep ys"
  by (induction xs) auto

lemma underscore_not_digit: "list_all is_decimal_digit d \<Longrightarrow> 0x5F \<notin> set d"
  by (auto simp: list_all_iff is_decimal_digit_def word_le_nat_alt)

lemma split_declaration_key:
  assumes "list_all is_decimal_digit d"
  shows "at_index (split 0x5F (js ''AZURE_STORAGE_CONNECTION_'' @ d)) 3 = Some d"
proof -
  have "js ''AZURE_STORAGE_CONNECTION_'' @ d = js ''AZURE'' @ 0x5F # js ''STORAGE'' @ 0x5F # js ''CONNECTION'' @ 0x5F # d"
    by (simp add: js_def)
  moreover have "0x5F \<notin> set (js ''AZURE'')" "0x5F \<notin> set (js ''STORAGE'')" "0x5F \<notin> set (js ''CONNECTION'')"
    by (simp_all add: js_def)
  ultimately have "split 0x5F (js ''AZURE_STORAGE_CONNECTION_'' @ d) = [js ''AZURE'', js ''STORAGE'', js ''CONNECTION'', d]"
    using underscore_not_digit [OF assms]
    by (simp add: split_append_sep split_no_sep del: split.simps)
  then show ?thesis by (simp add: at_index_def)
qed

lemma r_test_iff:
  "r_test k \<longleftrightarrow> (\<exists>d. k = js ''AZURE_STORAGE_CONNECTION_'' @ d \<and> d \<noteq> [] \<and> list_all is_decimal_digit d)"
  unfolding r_test_def Let_def
  by (metis append_eq_conv_conj)

lemma r_test_key:
  "r_test k \<Longrightarrow> k = js ''AZURE_STORAGE_CONNECTION_'' @ drop 25 k \<and> drop 25 k \<noteq> [] \<and> list_all is_decimal_digit (drop 25 k)"
proof -
  have l: "length (js ''AZURE_STORAGE_CONNECTION_'') = 25" by (simp add: js_def)
  assume "r_test k"
  then show ?thesis
    unfolding r_test_def Let_def l by (metis append_take_drop_id)
qed

lemma hd_digit_parse:
  assumes "d \<noteq> []" "list_all is_decimal_digit d"
  shows "parseInt (Some d) = to_number False (digits_value 10 d)"
proof -
  obtain c cs where d: "d = c # cs" using assms(1) by (cases d) auto
  have c: "is_decimal_digit c" and cs: "list_all is_decimal_digit cs" using assms(2) d by auto
  have t: "trim_start d = d" using c by (simp add: trim_start_def d digit_not_white_space)
  have s: "hd d \<noteq> 0x2D" "hd d \<noteq> 0x2B" using c by (auto simp: d is_decimal_digit_def)
  have x: "take 2 d \<noteq> js ''0x''" "take 2 d \<noteq> js ''0X''"
    using cs by (cases cs; auto simp: d js_def is_decimal_digit_def)+
  have z: "takeWhile (is_radix_digit 10) d = d"
    using assms(2) by (simp add: is_radix_digit_10 list_all_iff)
  show ?thesis
    by (simp add: parseInt_def Let_def t s x z assms(1))
qed

lemma bit_length_le: "n < 2 ^ k \<Longrightarrow> bit_length n \<le> k"
proof (induction k arbitrary: n)
  case 0
  then show ?case by (simp add: bit_length.simps)
next
  case (Suc k)
  show ?case
  proof (cases "n = 0")
    case True
    then show ?thesis by (simp add: bit_length.simps)
  next
    case False
    have "n div 2 < 2 ^ k" using Suc.prems by simp
    then have "bit_length (n div 2) \<le> k" by (rule Suc.IH)
    then show ?thesis using False by (subst bit_length.simps) simp
  qed
qed

lemma bit_length_lower: "0 < n \<Longrightarrow> 2 ^ (bit_length n - 1) \<le> n"
proof (induction n rule: bit_length.induct)
  case (1 n)
  show ?case
  proof (cases "n div 2 = 0")
    case True
    then have "n = 1" using 1 by presburger
    then show ?thesis by (simp add: bit_length.simps)
  next
    case False
    then have ih: "2 ^ (bit_length (n div 2) - 1) \<le> n div 2" using 1 by simp
    have pos: "0 < bit_length (n div 2)" using False by (subst bit_length.simps) simp
    have "bit_length n = Suc (bit_length (n div 2))" using 1(2) by (subst bit_length.simps) simp
    then have "(2::nat) ^ (bit_length n - 1) = 2 * 2 ^ (bit_length (n div 2) - 1)"
      using pos by (cases "bit_length (n div 2)") simp_all
    also have "\<dots> \<le> 2 * (n div 2)" using ih by simp
    also have "\<dots> \<le> n" by simp
    finally show ?thesis .
  qed
qed

lemma round_to_double_safe: "n < 2 ^ 53 \<Longrightarrow> round_to_double n = Some n"
  using bit_length_le [of n 53] by (simp add: round_to_double_def)

lemma round_to_double_large:
  assumes "53 < bit_length y" "round_to_double y = Some v"
  shows "2 ^ 53 \<le> v"
proof -
  define e where "e = bit_length y - 53"
  define q where "q = y div 2 ^ e"
  have e: "1 \<le> e" "bit_length y - 1 = 52 + e" using assms(1) by (simp_all add: e_def)
  have "0 < y" using assms(1) by (cases "y = 0") (simp_all add: bit_length.simps)
  then have "2 ^ (52 + e) \<le> y" using bit_length_lower [of y] e by simp
  then have "(2 ^ 52 * 2 ^ e) div 2 ^ e \<le> y div 2 ^ e"
    by (intro div_le_mono) (simp add: power_add)
  then have q: "2 ^ 52 \<le> q" by (simp add: q_def)
  have v: "q * 2 ^ e \<le> v"
    using assms by (auto simp: round_to_double_def Let_def e_def q_def split: if_splits)
  have "(2::nat) ^ 1 \<le> 2 ^ e" using e(1) by (intro power_increasing) simp_all
  then have "2 ^ 52 * 2 ^ 1 \<le> q * 2 ^ e" using q by (intro mult_le_mono)
  then show ?thesis using v by simp
qed

lemma round_to_double_eq_safe:
  assumes "n < 2 ^ 53" "round_to_double y = Some n"
  shows "y = n"
proof (cases "bit_length y \<le> 53")
  case True
  then show ?thesis using assms(2) by (simp add: round_to_double_def)
next
  case False
  then have "2 ^ 53 \<le> n" using round_to_double_large [of y n] assms(2) by simp
  then show ?thesis using assms(1) by simp
qed


lemma length_decimal_le: "0 < k \<Longrightarrow> n < 10 ^ k \<Longrightarrow> length (decimal n) \<le> k"
proof (induction k arbitrary: n)
  case 0
  then show ?case by simp
next
  case (Suc k)
  show ?case
  proof (cases "n < 10")
    case True
    then show ?thesis by (subst decimal.simps) simp
  next
    case False
    then have k: "0 < k" using Suc.prems by (cases k) simp_all
    have "n div 10 < 10 ^ k" using Suc.prems by simp
    then have "length (decimal (n div 10)) \<le> k" using k by (rule Suc.IH [rotated])
    then show ?thesis using False by (subst decimal.simps) simp
  qed
qed

lemma candidates_safe:
  assumes "n < 2 ^ 53"
  shows "candidates n j = [] \<or> candidates n j = [n]"
proof -
  have "\<And>y. round_to_double y = Some n \<longleftrightarrow> y = n"
    using round_to_double_eq_safe [OF assms] round_to_double_safe [OF assms] by auto
  then show ?thesis
    by (auto simp: candidates_def Let_def)
qed

lemma shortest_decimal_safe:
  assumes "0 < n" "n < 2 ^ 53"
  shows "fst (shortest_decimal n) = n"
proof (cases "filter (\<lambda>j. candidates n j \<noteq> []) (rev [0..<Suc (length (decimal n))])")
  case Nil
  then show ?thesis by (simp add: shortest_decimal_def)
next
  case (Cons j js)
  then have "candidates n j \<noteq> []" by (metis (mono_tags, lifting) filter_eq_ConsD)
  then have "candidates n j = [n]" using candidates_safe [OF assms(2), of j] by simp
  then show ?thesis using Cons by (simp add: shortest_decimal_def nearest_def)
qed

lemma nat_to_string_safe:
  assumes "n < 2 ^ 53"
  shows "nat_to_string n = decimal n"
proof (cases "n = 0")
  case True
  then show ?thesis by (simp add: nat_to_string_def js_def decimal.simps digit_char_def)
next
  case False
  obtain y j where sd: "shortest_decimal n = (y, j)" by (cases "shortest_decimal n")
  then have y: "y = n" using shortest_decimal_safe [of n] assms False by simp
  have "n < 10 ^ 21" using assms by simp
  then have "length (decimal n) \<le> 21" by (intro length_decimal_le) simp_all
  then show ?thesis using False
    by (simp add: nat_to_string_def sd y)
qed

lemma unat_digit_char: "m < 10 \<Longrightarrow> unat (digit_char m) = 48 + m"
  unfolding digit_char_def by (rule of_nat_inverse) simp_all

lemma digit_char_digit: "m < 10 \<Longrightarrow> is_decimal_digit (digit_char m)"
  by (simp add: is_decimal_digit_def word_le_nat_alt unat_digit_char)

lemma digit_of_digit_char: "m < 10 \<Longrightarrow> digit_of 10 (digit_char m) = Some m"
  using digit_char_digit [of m] by (simp add: digit_of_decimal unat_digit_char)

lemma decimal_digits: "list_all is_decimal_digit (decimal n)"
proof (induction n rule: decimal.induct)
  case (1 n)
  show ?case
  proof (cases "n < 10")
    case True
    then show ?thesis by (subst decimal.simps) (simp add: digit_char_digit)
  next
    case False
    then show ?thesis using 1 by (subst decimal.simps) (simp add: digit_char_digit)
  qed
qed

lemma decimal_not_Nil: "decimal n \<noteq> []"
  by (subst decimal.simps) simp

lemma r_test_declaration_key: "r_test (declaration_key n)"
  unfolding r_test_iff declaration_key_def
  using decimal_digits decimal_not_Nil by blast

lemma digits_value_snoc:
  "digits_value r (z @ [c]) = digits_value r z * r + (case digit_of r c of Some d \<Rightarrow> d | None \<Rightarrow> 0)"
  by (simp add: digits_value_def)

lemma digits_value_decimal: "digits_value 10 (decimal n) = n"
proof (induction n rule: decimal.induct)
  case (1 n)
  show ?case
  proof (cases "n < 10")
    case True
    then show ?thesis
      by (subst decimal.simps) (simp add: digits_value_def digit_of_digit_char)
  next
    case False
    then have "digits_value 10 (decimal (n div 10)) = n div 10" using 1 by simp
    then show ?thesis using False
      by (subst decimal.simps) (simp add: digits_value_snoc digit_of_digit_char)
  qed
qed

lemma parseInt_undefined: "parseInt None = NaN"
  by (simp add: parseInt_def js_def trim_start_def is_white_space_def is_radix_digit_def digit_of_def)

lemma to_number_not_NaN: "to_number b n \<noteq> NaN"
  by (simp add: to_number_def split: option.splits)

lemma nr_no_match:
  assumes "filter (declares env name) (env_keys env) = []"
  shows "getAzureStorageConnectionNrFromEnvVar env name =
           Inl (Error (js ''No azure storage connection '' @ name @ js '' found or defined''))"
proof -
  have "filter (\<lambda>k. map_option trim (env_get env k) = Some name) (filter r_test (env_keys env)) = []"
    using assms by (simp add: declares_def [abs_def])
  then show ?thesis
    unfolding getAzureStorageConnectionNrFromEnvVar_def
    by (simp add: parseInt_undefined isNaN_def)
qed

lemma nr_first_match:
  assumes "filter (declares env name) (env_keys env) = k # ks"
  shows "getAzureStorageConnectionNrFromEnvVar env name = Inr (to_number False (digits_value 10 (drop 25 k)))"
proof -
  have f: "filter (\<lambda>k. map_option trim (env_get env k) = Some name) (filter r_test (env_keys env)) = k # ks"
    using assms by (simp add: declares_def [abs_def])
  have "declares env name k" using assms by (metis filter_eq_ConsD)
  then have "r_test k" by (simp add: declares_def)
  then have k: "k = js ''AZURE_STORAGE_CONNECTION_'' @ drop 25 k"
    and d: "drop 25 k \<noteq> []" "list_all is_decimal_digit (drop 25 k)"
    using r_test_key by blast+
  have "at_index (split 0x5F k) 3 = Some (drop 25 k)"
    using split_declaration_key [OF d(2)] k by simp
  then show ?thesis
    using hd_digit_parse [OF d]
    unfolding getAzureStorageConnectionNrFromEnvVar_def f
    by (simp add: isNaN_def to_number_not_NaN)
qed

lemma blob_options_of_nr:
  assumes "getAzureStorageConnectionNrFromEnvVar env name = Inr nr"
  shows "defaultGetBlobStorageClientOptions env name =
    (case env_get env (js ''AZURE_STORAGE_CONNECTION_'' @ number_to_string nr @ js ''_URL'') of
       None \<Rightarrow> Inl (Error (js ''Azure storage connection '' @ name @ js '' not found''))
     | Some u \<Rightarrow> if trim u = [] then Inl (Error (js ''Azure storage connection '' @ name @ js '' not found''))
                 else Inr \<lparr>url = trim u\<rparr>)"
  by (simp add: defaultGetBlobStorageClientOptions_def assms no_length_def split: option.splits)

lemma container_options_of_nr:
  assumes "getAzureStorageConnectionNrFromEnvVar env name = Inr nr"
    and "defaultGetBlobStorageClientOptions env name = Inr so"
  shows "defaultGetContainerClientOptions env name ov =
    (case effective_container env (js ''AZURE_STORAGE_CONNECTION_'' @ number_to_string nr @ js ''_CONTAINER'') ov of
       None \<Rightarrow> Inl (Error (js ''No container defined''))
     | Some c \<Rightarrow> if c = [] then Inl (Error (js ''No container defined''))
                 else Inr \<lparr>url = url so, container = c\<rparr>)"
proof -
  define envc where "envc = map_option trim (env_get env (js ''AZURE_STORAGE_CONNECTION_'' @ number_to_string nr @ js ''_CONTAINER''))"
  have "defaultGetContainerClientOptions env name ov =
    (let container1 = map_option trim ov;
         container2 = (if no_length container1 then envc else container1)
     in case container2 of
          None \<Rightarrow> Inl (Error (js ''No container defined''))
        | Some c \<Rightarrow> if no_length container2 then Inl (Error (js ''No container defined''))
                    else Inr \<lparr>url = url so, container = c\<rparr>)"
    unfolding defaultGetContainerClientOptions_def assms envc_def by simp
  also have "\<dots> = (case (case ov of None \<Rightarrow> envc | Some c \<Rightarrow> if trim c = [] then envc else Some (trim c)) of
       None \<Rightarrow> Inl (Error (js ''No container defined''))
     | Some c \<Rightarrow> if c = [] then Inl (Error (js ''No container defined''))
                 else Inr \<lparr>url = url so, container = c\<rparr>)"
    by (cases ov; cases envc) (simp_all add: no_length_def Let_def)
  finally show ?thesis unfolding envc_def effective_container_def .
qed

lemma container_options_blob_error:
  assumes "defaultGetBlobStorageClientOptions env name = Inl e"
  shows "defaultGetContainerClientOptions env name ov = Inl e"
proof (cases "getAzureStorageConnectionNrFromEnvVar env name")
  case (Inl e')
  then show ?thesis using assms
    by (simp add: defaultGetContainerClientOptions_def defaultGetBlobStorageClientOptions_def)
next
  case (Inr nr)
  then show ?thesis using assms
    by (simp add: defaultGetContainerClientOptions_def)
qed

lemma find_filter: "find P xs = (case filter P xs of [] \<Rightarrow> None | x # _ \<Rightarrow> Some x)"
  by (induction xs) auto

lemma to_number_safe: "n < 2 ^ 53 \<Longrightarrow> to_number False n = Finite (int n)"
  by (simp add: to_number_def round_to_double_safe)

lemma number_to_string_safe: "n < 2 ^ 53 \<Longrightarrow> number_to_string (Finite (int n)) = decimal n"
  by (simp add: number_to_string_def nat_to_string_safe)

lemma drop_prefix: "drop 25 (js ''AZURE_STORAGE_CONNECTION_'' @ ds) = ds"
  by (simp add: js_def)

lemma nr_first_declaration:
  assumes "first_declaration env name = Some (js ''AZURE_STORAGE_CONNECTION_'' @ ds)"
  shows "getAzureStorageConnectionNrFromEnvVar env name = Inr (to_number False (digits_value 10 ds))"
proof -
  obtain ks where "filter (declares env name) (env_keys env) = (js ''AZURE_STORAGE_CONNECTION_'' @ ds) # ks"
    using assms unfolding first_declaration_def find_filter
    by (cases "filter (declares env name) (env_keys env)") simp_all
  from nr_first_match [OF this] show ?thesis by (simp only: drop_prefix)
qed

lemma nr_safe:
  assumes "first_declaration env name = Some (js ''AZURE_STORAGE_CONNECTION_'' @ ds)"
    and "digits_value 10 ds < 2 ^ 53"
  shows "getAzureStorageConnectionNrFromEnvVar env name = Inr (Finite (int (digits_value 10 ds)))"
  using nr_first_declaration [OF assms(1)] assms(2) by (simp add: to_number_safe)

lemma trim_eq_Nil_iff: "trim s = [] \<longleftrightarrow> list_all is_white_space s"
proof (cases "dropWhile is_white_space s = []")
  case True
  then have "list_all is_white_space s" by (simp add: dropWhile_eq_Nil_conv list_all_iff)
  moreover have "trim s = []" by (simp add: trim_def True)
  ultimately show ?thesis by simp
next
  case False
  then have "\<not> is_white_space (hd (dropWhile is_white_space s))" by (rule hd_dropWhile)
  moreover have "hd (dropWhile is_white_space s) \<in> set (dropWhile is_white_space s)"
    using False by simp
  ultimately have "\<not> (\<forall>x\<in>set (dropWhile is_white_space s). is_white_space x)" by blast
  then have "trim s \<noteq> []" by (simp add: trim_def dropWhile_eq_Nil_conv)
  moreover have "\<not> list_all is_white_space s"
    using False by (simp add: dropWhile_eq_Nil_conv list_all_iff)
  ultimately show ?thesis by simp
qed

lemma number_to_string_safe_key:
  "n < 2 ^ 53 \<Longrightarrow>
     js ''AZURE_STORAGE_CONNECTION_'' @ number_to_string (Finite (int n)) @ js ''_URL'' = url_key n \<and>
     js ''AZURE_STORAGE_CONNECTION_'' @ number_to_string (Finite (int n)) @ js ''_CONTAINER'' = container_key n"
  by (simp add: number_to_string_safe url_key_def container_key_def)

lemma decimal_2_53: "decimal 9007199254740992 = js ''9007199254740992''"
  by (simp add: decimal.simps digit_char_def js_def)

lemma nat_to_string_2_53: "nat_to_string 9007199254740992 = js ''9007199254740992''"
proof -
  have l: "length (decimal 9007199254740992) = 16" by (simp add: decimal_2_53 js_def)
  have c0: "candidates 9007199254740992 0 = [9007199254740992, 9007199254740993]"
    by (simp add: candidates_def round_to_double_def bit_length.simps)
  have cj:
    "candidates 9007199254740992 (Suc 0) = []"
    "candidates 9007199254740992 2 = []"
    "candidates 9007199254740992 3 = []"
    "candidates 9007199254740992 4 = []"
    "candidates 9007199254740992 5 = []"
    "candidates 9007199254740992 6 = []"
    "candidates 9007199254740992 7 = []"
    "candidates 9007199254740992 8 = []"
    "candidates 9007199254740992 9 = []"
    "candidates 9007199254740992 10 = []"
    "candidates 9007199254740992 11 = []"
    "candidates 9007199254740992 12 = []"
    "candidates 9007199254740992 13 = []"
    "candidates 9007199254740992 14 = []"
    "candidates 9007199254740992 15 = []"
    "candidates 9007199254740992 16 = []"
    by (simp_all add: candidates_def round_to_double_def bit_length.simps)
  have u: "rev [0..<Suc 16] = [16, 15, 14, 13, 12, 11, 10, 9, 8, 7, 6, 5, 4, 3, 2, Suc 0, 0]"
    by (simp add: upt_rec)
  have "shortest_decimal 9007199254740992 = (9007199254740992, 0)"
    unfolding shortest_decimal_def l u by (simp add: cj c0 nearest_def)
  then show ?thesis
    by (simp add: nat_to_string_def decimal_2_53 js_def)
qed

lemma number_to_string_2_53: "number_to_string (Finite 9007199254740992) = js ''9007199254740992''"
  by (simp add: number_to_string_def nat_to_string_2_53)

lemma round_to_double_2_53_1: "round_to_double 9007199254740993 = Some 9007199254740992"
proof -
  have "bit_length 9007199254740993 = 54"
    by (simp add: bit_length.simps)
  then show ?thesis
    by (simp add: round_to_double_def)
qed

section \<open>Connection index resolution\<close>

lemma digit_member_iff: "c \<in> set (js ''0123456789'') \<longleftrightarrow> is_decimal_digit c"
proof
  assume "c \<in> set (js ''0123456789'')"
  then show "is_decimal_digit c"
    by (auto simp: js_def is_decimal_digit_def)
next
  assume "is_decimal_digit c"
  then have "48 \<le> unat c" "unat c \<le> 57"
    by (simp_all add: is_decimal_digit_def word_le_nat_alt)
  then have "unat c \<in> {48, 49, 50, 51, 52, 53, 54, 55, 56, 57}"
    by simp arith
  then have "of_nat (unat c) \<in> (of_nat ` {48, 49, 50, 51, 52, 53, 54, 55, 56, 57} :: 16 word set)"
    by (rule imageI)
  then show "c \<in> set (js ''0123456789'')"
    by (simp add: js_def)
qed

lemma declaration_key_digits_iff: "declaration_key_digits k \<noteq> None \<longleftrightarrow> r_test k"
proof -
  have l: "length (js ''AZURE_STORAGE_CONNECTION_'') = 25" by (simp add: js_def)
  have d: "list_all (\<lambda>c. c \<in> set (js ''0123456789'')) ds = list_all is_decimal_digit ds" for ds
    by (simp add: digit_member_iff)
  have n: "25 < length k \<longleftrightarrow> drop 25 k \<noteq> []" by auto
  show ?thesis
    unfolding declaration_key_digits_def r_test_def Let_def l d n by auto
qed

lemma declaration_key_digits_Some: "declaration_key_digits k = Some ds \<Longrightarrow> ds = drop 25 k"
  by (simp add: declaration_key_digits_def split: if_splits)

lemma foldl_digits:
  "list_all is_decimal_digit ds \<Longrightarrow>
   foldl (\<lambda>a c. a * 10 + (case digit_of 10 c of Some d \<Rightarrow> d | None \<Rightarrow> 0)) a ds =
     a * 10 ^ length ds + decimal_number ds"
proof (induction ds arbitrary: a)
  case Nil
  then show ?case by simp
next
  case (Cons c cs)
  then show ?case
    by (simp add: digit_of_decimal algebra_simps)
qed

lemma digits_value_decimal_number:
  "list_all is_decimal_digit ds \<Longrightarrow> digits_value 10 ds = decimal_number ds"
  using foldl_digits [of ds 0] by (simp add: digits_value_def)


lemma first_declared_digits_filter:
  "first_declared_digits env name =
     (case filter (declares env name) (env_keys env) of [] \<Rightarrow> None | k # _ \<Rightarrow> Some (drop 25 k))"
proof -
  have p: "(\<lambda>k. declaration_key_digits k \<noteq> None \<and> map_option trim (env_get env k) = Some name) = declares env name"
    by (rule ext) (simp only: declares_def declaration_key_digits_iff)
  show ?thesis
  proof (cases "filter (declares env name) (env_keys env)")
    case Nil
    then show ?thesis unfolding first_declared_digits_def p find_filter by simp
  next
    case (Cons k ks)
    then have "declares env name k" by (metis filter_eq_ConsD)
    then have "r_test k" by (simp add: declares_def)
    then have "declaration_key_digits k \<noteq> None" by (simp only: declaration_key_digits_iff)
    then obtain ds where ds: "declaration_key_digits k = Some ds" by auto
    then have "ds = drop 25 k" by (rule declaration_key_digits_Some)
    then show ?thesis using Cons ds unfolding first_declared_digits_def p find_filter by simp
  qed
qed

lemma bit_length_upper: "n < 2 ^ bit_length n"
proof (induction n rule: bit_length.induct)
  case (1 n)
  show ?case
  proof (cases "n = 0")
    case True
    then show ?thesis by simp
  next
    case False
    then have "n div 2 < 2 ^ bit_length (n div 2)" using 1 by simp
    then have "n < 2 * 2 ^ bit_length (n div 2)" by linarith
    moreover have "bit_length n = Suc (bit_length (n div 2))"
      using False by (subst bit_length.simps) simp
    ultimately show ?thesis by simp
  qed
qed

lemma round_to_double_overflow:
  assumes "2 ^ 1024 \<le> n"
  shows "round_to_double n = None"
proof -
  define e where "e = bit_length n - 53"
  define q where "q = n div 2 ^ e"
  have "(2::nat) ^ 1024 < 2 ^ bit_length n"
    using assms bit_length_upper [of n] by linarith
  then have b: "1024 < bit_length n"
    using power_less_imp_less_exp [of 2 1024 "bit_length n"] by simp
  then have e: "972 \<le> e" "bit_length n - 1 = 52 + e" by (simp_all add: e_def)
  have "0 < n" using assms by (cases "n = 0") simp_all
  then have "2 ^ (52 + e) \<le> n" using bit_length_lower [of n] e by simp
  then have "(2 ^ 52 * 2 ^ e) div 2 ^ e \<le> n div 2 ^ e"
    by (intro div_le_mono) (simp add: power_add)
  then have q: "2 ^ 52 \<le> q" by (simp add: q_def)
  have "(2::nat) ^ 972 \<le> 2 ^ e" using e(1) by (intro power_increasing) simp_all
  then have "(2::nat) ^ 52 * 2 ^ 972 \<le> q * 2 ^ e" using q by (intro mult_le_mono)
  then have big: "2 ^ 1024 \<le> q * 2 ^ e" by simp
  have "2 ^ 1024 \<le> v" if "round_to_double n = Some v" for v
  proof -
    have "q * 2 ^ e \<le> v"
      using that b by (auto simp: round_to_double_def Let_def e_def q_def split: if_splits)
    then show ?thesis using big by linarith
  qed
  moreover have "v < 2 ^ 1024" if "round_to_double n = Some v" for v
    using that b by (auto simp: round_to_double_def Let_def split: if_splits)
  ultimately show ?thesis
    by (cases "round_to_double n") (auto simp: not_le [symmetric] simp del: not_le)
qed

lemma digits_value_nines: "digits_value 10 (replicate n 0x39) = 10 ^ n - 1"
proof (induction n)
  case 0
  then show ?case by (simp add: digits_value_def)
next
  case (Suc n)
  have "digits_value 10 (replicate (Suc n) 0x39) = digits_value 10 (replicate n 0x39 @ [0x39])"
    by (simp add: replicate_append_same)
  also have "\<dots> = (10 ^ n - 1) * 10 + 9"
    by (simp add: digits_value_snoc Suc digit_of_def)
  also have "\<dots> = 10 ^ Suc n - 1"
    by (simp add: algebra_simps)
  finally show ?case .
qed

text \<open>
  Claim C1, amended. For every environment and connection name,
  \<open>getAzureStorageConnectionNrFromEnvVar\<close> goes through the keys of the environment in
  enumeration order, keeps those that are \<open>AZURE_STORAGE_CONNECTION_\<close> followed by one or
  more digits and nothing else, and whose trimmed value is exactly the name, and takes the
  digits segment of the first of them. It returns the double nearest to the integer the
  segment denotes: the integer itself when it is below \<open>2 ^ 53\<close>. A kept key always
  parses, so the call fails only when no key is kept, with the error
  \<open>No azure storage connection <name> found or defined\<close> that names the requested name.
\<close>

theorem connection_nr_resolution:
  "case first_declared_digits env name of
     None \<Rightarrow>
       getAzureStorageConnectionNrFromEnvVar env name =
         Inl (Error (js ''No azure storage connection '' @ name @ js '' found or defined''))
   | Some ds \<Rightarrow>
       getAzureStorageConnectionNrFromEnvVar env name = Inr (to_number False (decimal_number ds)) \<and>
       (decimal_number ds < 2 ^ 53 \<longrightarrow>
          getAzureStorageConnectionNrFromEnvVar env name = Inr (Finite (int (decimal_number ds))))"
proof (cases "filter (declares env name) (env_keys env)")
  case Nil
  then show ?thesis by (simp add: first_declared_digits_filter nr_no_match)
next
  case (Cons k ks)
  then have "declares env name k" by (metis filter_eq_ConsD)
  then have "r_test k" by (simp add: declares_def)
  then have "list_all is_decimal_digit (drop 25 k)" using r_test_key by blast
  then have v: "digits_value 10 (drop 25 k) = decimal_number (drop 25 k)"
    by (rule digits_value_decimal_number)
  have "getAzureStorageConnectionNrFromEnvVar env name = Inr (to_number False (decimal_number (drop 25 k)))"
    using nr_first_match [OF Cons] by (simp add: v)
  then show ?thesis using Cons by (simp add: first_declared_digits_filter to_number_safe)
qed

theorem connection_nr_resolution_witness:
  "first_declared_digits env_leading_zeros (js ''acme'') = Some (js ''007'') \<and>
   decimal_number (js ''007'') = 7 \<and>
   getAzureStorageConnectionNrFromEnvVar env_leading_zeros (js ''acme'') = Inr (Finite 7) \<and>
   first_declared_digits env_leading_zeros (js ''unknown'') = None \<and>
   getAzureStorageConnectionNrFromEnvVar env_leading_zeros (js ''unknown'') =
     Inl (Error (js ''No azure storage connection unknown found or defined''))"
proof -
  have 1: "first_declared_digits env_leading_zeros (js ''acme'') = Some (js ''007'')"
    by code_simp
  have 2: "decimal_number (js ''007'') = 7"
    by (simp add: js_def)
  have 3: "first_declared_digits env_leading_zeros (js ''unknown'') = None"
    by code_simp
  have m: "js ''No azure storage connection '' @ js ''unknown'' @ js '' found or defined'' =
      js ''No azure storage connection unknown found or defined''"
    by (simp add: js_def)
  have a: "getAzureStorageConnectionNrFromEnvVar env_leading_zeros (js ''acme'') = Inr (Finite 7)"
    using connection_nr_resolution [of env_leading_zeros "js ''acme''"] by (auto simp: 1 2)
  have b: "getAzureStorageConnectionNrFromEnvVar env_leading_zeros (js ''unknown'') =
     Inl (Error (js ''No azure storage connection unknown found or defined''))"
    using connection_nr_resolution [of env_leading_zeros "js ''unknown''"] by (simp add: 3 m)
  show ?thesis using 1 2 3 a b by simp
qed

text \<open>
  As the claim is stated, the segment is returned parsed as an integer. The result is a
  JavaScript number: the segment \<open>9007199254740993\<close> is returned as
  \<open>9007199254740992\<close>, and a segment of 400 nines as \<open>Infinity\<close>.
\<close>

theorem connection_nr_counterexample:
  "first_declared_digits env_large_index (js ''acme'') = Some (js ''9007199254740993'') \<and>
   decimal_number (js ''9007199254740993'') = 9007199254740993 \<and>
   getAzureStorageConnectionNrFromEnvVar env_large_index (js ''acme'') = Inr (Finite 9007199254740992) \<and>
   first_declared_digits env_huge_index (js ''acme'') = Some (replicate 400 0x39) \<and>
   getAzureStorageConnectionNrFromEnvVar env_huge_index (js ''acme'') = Inr PosInfinity"
proof -
  have 1: "first_declared_digits env_large_index (js ''acme'') = Some (js ''9007199254740993'')"
    by code_simp
  have 2: "decimal_number (js ''9007199254740993'') = 9007199254740993"
    by (simp add: js_def)
  have fd: "first_declaration env_large_index (js ''acme'') =
      Some (js ''AZURE_STORAGE_CONNECTION_'' @ js ''9007199254740993'')"
    by code_simp
  have dv: "digits_value 10 (js ''9007199254740993'') = 9007199254740993"
    by (simp add: digits_value_def js_def digit_of_def)
  have 3: "getAzureStorageConnectionNrFromEnvVar env_large_index (js ''acme'') = Inr (Finite 9007199254740992)"
    using nr_first_declaration [OF fd]
    by (simp add: dv to_number_def round_to_double_2_53_1)
  have 4: "first_declared_digits env_huge_index (js ''acme'') = Some (replicate 400 0x39)"
    by code_simp
  have fh: "first_declaration env_huge_index (js ''acme'') =
      Some (js ''AZURE_STORAGE_CONNECTION_'' @ replicate 400 0x39)"
    by code_simp
  have rd: "round_to_double (10 ^ 400 - 1) = None"
    by (rule round_to_double_overflow) simp
  have 5: "getAzureStorageConnectionNrFromEnvVar env_huge_index (js ''acme'') = Inr PosInfinity"
    using nr_first_declaration [OF fh]
    by (simp only: digits_value_nines to_number_def rd) simp
  show ?thesis
    by (simp only: 1 2 3 4 5 simp_thms)
qed

section \<open>Service-level resolution\<close>

text \<open>
  Claim C2, amended. For every name and every index below \<open>2 ^ 53\<close> such that
  \<open>AZURE_STORAGE_CONNECTION_<index>\<close> (the index in decimal, without leading zeros) is
  the first key in enumeration order that declares the name (it matches the pattern and
  its trimmed value is the name), and \<open>AZURE_STORAGE_CONNECTION_<index>_URL\<close> is set to
  \<open>U\<close> with \<open>U\<close> not empty after trimming, \<open>defaultGetBlobStorageClientOptions\<close>
  succeeds and returns the record whose \<open>url\<close> is \<open>U\<close> trimmed.
\<close>

theorem blob_storage_options_of_first_declaration:
  assumes "first_declaration env name = Some (declaration_key index)"
    and "index < 2 ^ 53"
    and "env_get env (url_key index) = Some U"
    and "trim U \<noteq> []"
  shows "defaultGetBlobStorageClientOptions env name = Inr \<lparr>url = trim U\<rparr>"
proof -
  have "getAzureStorageConnectionNrFromEnvVar env name = Inr (Finite (int index))"
    using nr_safe [of env name "decimal index"] assms(1,2)
    by (simp add: declaration_key_def digits_value_decimal)
  from blob_options_of_nr [OF this] show ?thesis
    using assms(2,3,4) by (simp add: number_to_string_safe url_key_def)
qed

theorem blob_storage_options_of_first_declaration_witness:
  "first_declaration example_env (js ''acme'') = Some (declaration_key 1) \<and>
   (1::nat) < 2 ^ 53 \<and>
   env_get example_env (url_key 1) = Some (js ''https://x/'') \<and>
   trim (js ''https://x/'') \<noteq> [] \<and>
   defaultGetBlobStorageClientOptions example_env (js ''acme'') = Inr \<lparr>url = js ''https://x/''\<rparr>"
proof -
  have 1: "first_declaration example_env (js ''acme'') = Some (declaration_key 1)" by code_simp
  have 2: "(1::nat) < 2 ^ 53" by simp
  have 3: "env_get example_env (url_key 1) = Some (js ''https://x/'')" by code_simp
  have 4: "trim (js ''https://x/'') = js ''https://x/''" by code_simp
  have 5: "trim (js ''https://x/'') \<noteq> []" by code_simp
  show ?thesis
    using blob_storage_options_of_first_declaration [OF 1 2 3 5] 1 2 3 5 by (simp add: 4)
qed

text \<open>
  The claim as the specification states it, for every pair of a name and an index with
  \<open>AZURE_STORAGE_CONNECTION_<index>\<close> set to the name and
  \<open>AZURE_STORAGE_CONNECTION_<index>_URL\<close> set to \<open>U\<close>, fails in five ways. An earlier
  declaration of the same name wins, and its own URL is read. A blank \<open>U\<close> is an error,
  and a padded \<open>U\<close> is returned trimmed. A name with white space around it never equals
  a trimmed value. An index above \<open>2 ^ 53\<close> is rounded to a double before the URL key
  is built from it.
\<close>

theorem blob_storage_options_counterexample:
  "env_get env_two_declarations (declaration_key 2) = Some (js ''acme'') \<and>
   env_get env_two_declarations (url_key 2) = Some (js ''https://x/'') \<and>
   defaultGetBlobStorageClientOptions env_two_declarations (js ''acme'') =
     Inl (Error (js ''Azure storage connection acme not found'')) \<and>
   env_get env_blank_url (declaration_key 1) = Some (js ''acme'') \<and>
   env_get env_blank_url (url_key 1) = Some (js ''  '') \<and>
   defaultGetBlobStorageClientOptions env_blank_url (js ''acme'') =
     Inl (Error (js ''Azure storage connection acme not found'')) \<and>
   env_get env_padded_url (declaration_key 1) = Some (js ''acme'') \<and>
   env_get env_padded_url (url_key 1) = Some (js ''https://x/ '') \<and>
   defaultGetBlobStorageClientOptions env_padded_url (js ''acme'') = Inr \<lparr>url = js ''https://x/''\<rparr> \<and>
   env_get env_padded_name (declaration_key 1) = Some (js '' acme'') \<and>
   env_get env_padded_name (url_key 1) = Some (js ''https://x/'') \<and>
   defaultGetBlobStorageClientOptions env_padded_name (js '' acme'') =
     Inl (Error (js ''No azure storage connection  acme found or defined'')) \<and>
   env_get env_large_index (declaration_key 9007199254740993) = Some (js ''acme'') \<and>
   env_get env_large_index (url_key 9007199254740993) = Some (js ''https://x/'') \<and>
   defaultGetBlobStorageClientOptions env_large_index (js ''acme'') =
     Inl (Error (js ''Azure storage connection acme not found''))"
proof -
  have two:
    "env_get env_two_declarations (declaration_key 2) = Some (js ''acme'')"
    "env_get env_two_declarations (url_key 2) = Some (js ''https://x/'')"
    "defaultGetBlobStorageClientOptions env_two_declarations (js ''acme'') =
       Inl (Error (js ''Azure storage connection acme not found''))"
    by code_simp+
  have blank:
    "env_get env_blank_url (declaration_key 1) = Some (js ''acme'')"
    "env_get env_blank_url (url_key 1) = Some (js ''  '')"
    "defaultGetBlobStorageClientOptions env_blank_url (js ''acme'') =
       Inl (Error (js ''Azure storage connection acme not found''))"
    by code_simp+
  have padded_url:
    "env_get env_padded_url (declaration_key 1) = Some (js ''acme'')"
    "env_get env_padded_url (url_key 1) = Some (js ''https://x/ '')"
    "defaultGetBlobStorageClientOptions env_padded_url (js ''acme'') = Inr \<lparr>url = js ''https://x/''\<rparr>"
    by code_simp+
  have padded_name:
    "env_get env_padded_name (declaration_key 1) = Some (js '' acme'')"
    "env_get env_padded_name (url_key 1) = Some (js ''https://x/'')"
    "defaultGetBlobStorageClientOptions env_padded_name (js '' acme'') =
       Inl (Error (js ''No azure storage connection  acme found or defined''))"
    by code_simp+
  have d: "decimal 9007199254740993 = js ''9007199254740993''"
    by (simp add: decimal.simps digit_char_def js_def)
  have large_env:
    "env_get env_large_index (declaration_key 9007199254740993) = Some (js ''acme'')"
    "env_get env_large_index (url_key 9007199254740993) = Some (js ''https://x/'')"
    by (simp_all add: env_get_def env_large_index_def declaration_key_def url_key_def d js_def)
  have k: "js ''AZURE_STORAGE_CONNECTION_9007199254740993'' = js ''AZURE_STORAGE_CONNECTION_'' @ js ''9007199254740993''"
    by (simp add: js_def)
  have fd: "first_declaration env_large_index (js ''acme'') = Some (js ''AZURE_STORAGE_CONNECTION_9007199254740993'')"
    by code_simp
  have dv: "digits_value 10 (js ''9007199254740993'') = 9007199254740993"
    by (simp add: digits_value_def js_def digit_of_def)
  have nr: "getAzureStorageConnectionNrFromEnvVar env_large_index (js ''acme'') = Inr (Finite 9007199254740992)"
    using nr_first_declaration [OF fd [unfolded k]]
    by (simp add: dv to_number_def round_to_double_2_53_1)
  have large: "defaultGetBlobStorageClientOptions env_large_index (js ''acme'') =
      Inl (Error (js ''Azure storage connection acme not found''))"
    unfolding blob_options_of_nr [OF nr] number_to_string_2_53
    by (simp add: env_get_def env_large_index_def js_def)
  show ?thesis
    by (simp only: two blank padded_url padded_name large_env large simp_thms)
qed

lemma effective_container_blank:
  assumes "case override of None \<Rightarrow> True | Some c \<Rightarrow> list_all is_white_space c"
  shows "effective_container env ckey override = map_option trim (env_get env ckey)"
  using assms by (cases override) (simp_all add: effective_container_def trim_eq_Nil_iff)

section \<open>Container-level resolution\<close>

text \<open>
  Claim C3. For every name whose index \<open>nr\<close> and URL resolve and every override,
  \<open>defaultGetContainerClientOptions\<close> decides on the effective container: the trimmed
  override when the override is not empty after trimming, whatever the environment holds,
  and otherwise the trimmed value of \<open>AZURE_STORAGE_CONNECTION_<nr>_CONTAINER\<close>. An absent
  override, the empty string and a string of white space all fall back to the environment.
  The result carries the effective container, and is the error \<open>No container defined\<close> when
  there is none or it is empty.
\<close>

theorem effective_container_resolution:
  assumes "getAzureStorageConnectionNrFromEnvVar env name = Inr nr"
    and "defaultGetBlobStorageClientOptions env name = Inr so"
    and "ckey = js ''AZURE_STORAGE_CONNECTION_'' @ number_to_string nr @ js ''_CONTAINER''"
  shows "defaultGetContainerClientOptions env name override =
           (case effective_container env ckey override of
              None \<Rightarrow> Inl (Error (js ''No container defined''))
            | Some c \<Rightarrow> if c = [] then Inl (Error (js ''No container defined''))
                        else Inr \<lparr>url = url so, container = c\<rparr>) \<and>
         (trim c \<noteq> [] \<longrightarrow>
            defaultGetContainerClientOptions env name (Some c) = Inr \<lparr>url = url so, container = trim c\<rparr>) \<and>
         effective_container env ckey None = map_option trim (env_get env ckey) \<and>
         effective_container env ckey (Some []) = map_option trim (env_get env ckey) \<and>
         (list_all is_white_space w \<longrightarrow>
            effective_container env ckey (Some w) = map_option trim (env_get env ckey))"
proof -
  have r: "defaultGetContainerClientOptions env name override =
           (case effective_container env ckey override of
              None \<Rightarrow> Inl (Error (js ''No container defined''))
            | Some c \<Rightarrow> if c = [] then Inl (Error (js ''No container defined''))
                        else Inr \<lparr>url = url so, container = c\<rparr>)" for override
    unfolding assms(3) by (rule container_options_of_nr [OF assms(1,2)])
  have o: "defaultGetContainerClientOptions env name (Some c) = Inr \<lparr>url = url so, container = trim c\<rparr>"
    if "trim c \<noteq> []"
    using that by (simp add: r effective_container_def)
  have b: "effective_container env ckey None = map_option trim (env_get env ckey)"
    "effective_container env ckey (Some []) = map_option trim (env_get env ckey)"
    by (simp_all add: effective_container_blank)
  have w: "effective_container env ckey (Some w) = map_option trim (env_get env ckey)"
    if "list_all is_white_space w"
    using that by (simp add: effective_container_blank)
  show ?thesis using r o b w by blast
qed

theorem effective_container_resolution_witness:
  "getAzureStorageConnectionNrFromEnvVar example_env (js ''acme'') = Inr (Finite 1) \<and>
   defaultGetBlobStorageClientOptions example_env (js ''acme'') = Inr \<lparr>url = js ''https://x/''\<rparr> \<and>
   trim (js '' override '') \<noteq> [] \<and>
   list_all is_white_space (js ''  '') \<and>
   defaultGetContainerClientOptions example_env (js ''acme'') (Some (js '' override '')) =
     Inr \<lparr>url = js ''https://x/'', container = js ''override''\<rparr> \<and>
   defaultGetContainerClientOptions example_env (js ''acme'') None =
     Inr \<lparr>url = js ''https://x/'', container = js ''logs''\<rparr> \<and>
   effective_container example_env (js ''AZURE_STORAGE_CONNECTION_1_CONTAINER'') (Some (js ''  '')) =
     Some (js ''logs'')"
proof -
  have 1: "getAzureStorageConnectionNrFromEnvVar example_env (js ''acme'') = Inr (Finite 1)"
    by code_simp
  have 2: "defaultGetBlobStorageClientOptions example_env (js ''acme'') = Inr \<lparr>url = js ''https://x/''\<rparr>"
    by code_simp
  have 3: "js ''AZURE_STORAGE_CONNECTION_1_CONTAINER'' =
      js ''AZURE_STORAGE_CONNECTION_'' @ number_to_string (Finite 1) @ js ''_CONTAINER''"
    by code_simp
  have 4: "trim (js '' override '') = js ''override''" "js ''override'' \<noteq> []"
    by code_simp+
  have 5: "list_all is_white_space (js ''  '')"
    by code_simp
  have 6: "map_option trim (env_get example_env (js ''AZURE_STORAGE_CONNECTION_1_CONTAINER'')) = Some (js ''logs'')"
    "js ''logs'' \<noteq> []"
    by code_simp+
  note t = effective_container_resolution [OF 1 2 3]
  have a: "defaultGetContainerClientOptions example_env (js ''acme'') (Some (js '' override '')) =
     Inr \<lparr>url = js ''https://x/'', container = js ''override''\<rparr>"
    using t [of None "js '' override ''" "[]"] 4 by simp
  have b: "defaultGetContainerClientOptions example_env (js ''acme'') None =
     Inr \<lparr>url = js ''https://x/'', container = js ''logs''\<rparr>"
    using t [of None "[]" "[]"] 6 by simp
  have c: "effective_container example_env (js ''AZURE_STORAGE_CONNECTION_1_CONTAINER'') (Some (js ''  '')) =
     Some (js ''logs'')"
    using t [of None "[]" "js ''  ''"] 5 6 by simp
  show ?thesis using 1 2 4 5 a b c by simp
qed

section \<open>A missing or blank URL\<close>

text \<open>
  Claim C4. For every name whose index resolves to \<open>nr\<close> while
  \<open>AZURE_STORAGE_CONNECTION_<nr>_URL\<close> is unset, empty or made of white space only,
  \<open>defaultGetBlobStorageClientOptions\<close> fails with the error
  \<open>Azure storage connection <name> not found\<close>, which carries the requested name, and
  \<open>defaultGetContainerClientOptions\<close> fails with the same error for every override.
\<close>

theorem missing_url_connection_not_found:
  assumes "getAzureStorageConnectionNrFromEnvVar env name = Inr nr"
    and "case env_get env (js ''AZURE_STORAGE_CONNECTION_'' @ number_to_string nr @ js ''_URL'') of
           None \<Rightarrow> True
         | Some u \<Rightarrow> list_all is_white_space u"
  shows "defaultGetBlobStorageClientOptions env name =
           Inl (Error (js ''Azure storage connection '' @ name @ js '' not found'')) \<and>
         defaultGetContainerClientOptions env name override =
           Inl (Error (js ''Azure storage connection '' @ name @ js '' not found''))"
proof -
  have "defaultGetBlobStorageClientOptions env name =
           Inl (Error (js ''Azure storage connection '' @ name @ js '' not found''))"
    unfolding blob_options_of_nr [OF assms(1)]
    using assms(2)
    by (cases "env_get env (js ''AZURE_STORAGE_CONNECTION_'' @ number_to_string nr @ js ''_URL'')")
      (simp_all add: trim_eq_Nil_iff)
  then show ?thesis
    by (simp add: container_options_blob_error)
qed

theorem missing_url_connection_not_found_witness:
  "getAzureStorageConnectionNrFromEnvVar env_blank_url (js ''acme'') = Inr (Finite 1) \<and>
   env_get env_blank_url (js ''AZURE_STORAGE_CONNECTION_1_URL'') = Some (js ''  '') \<and>
   list_all is_white_space (js ''  '') \<and>
   defaultGetBlobStorageClientOptions env_blank_url (js ''acme'') =
     Inl (Error (js ''Azure storage connection acme not found'')) \<and>
   defaultGetContainerClientOptions env_blank_url (js ''acme'') (Some (js ''logs'')) =
     Inl (Error (js ''Azure storage connection acme not found''))"
proof -
  have 1: "getAzureStorageConnectionNrFromEnvVar env_blank_url (js ''acme'') = Inr (Finite 1)"
    by code_simp
  have k: "js ''AZURE_STORAGE_CONNECTION_'' @ number_to_string (Finite 1) @ js ''_URL'' =
      js ''AZURE_STORAGE_CONNECTION_1_URL''"
    by code_simp
  have 2: "env_get env_blank_url (js ''AZURE_STORAGE_CONNECTION_1_URL'') = Some (js ''  '')"
    by code_simp
  have 3: "list_all is_white_space (js ''  '')"
    by code_simp
  have m: "js ''Azure storage connection '' @ js ''acme'' @ js '' not found'' =
      js ''Azure storage connection acme not found''"
    by (simp add: js_def)
  have "case env_get env_blank_url (js ''AZURE_STORAGE_CONNECTION_'' @ number_to_string (Finite 1) @ js ''_URL'') of
           None \<Rightarrow> True
         | Some u \<Rightarrow> list_all is_white_space u"
    unfolding k 2 using 3 by simp
  from missing_url_connection_not_found [OF 1 this, of "Some (js ''logs'')"]
  show ?thesis using 1 2 3 unfolding m by simp
qed

section \<open>Container and service options agree on the URL\<close>

text \<open>
  Claim C10. For every environment, name and override, when
  \<open>defaultGetContainerClientOptions\<close> succeeds, \<open>defaultGetBlobStorageClientOptions\<close>
  succeeds for the same name in the same environment, and the two results have the same
  \<open>url\<close>.
\<close>

theorem container_url_is_service_url:
  assumes "defaultGetContainerClientOptions env name override = Inr copts"
  shows "defaultGetBlobStorageClientOptions env name = Inr \<lparr>url = url copts\<rparr>"
proof (cases "getAzureStorageConnectionNrFromEnvVar env name")
  case (Inl e)
  then show ?thesis using assms by (simp add: defaultGetContainerClientOptions_def)
next
  case nr: (Inr nr)
  show ?thesis
  proof (cases "defaultGetBlobStorageClientOptions env name")
    case (Inl e)
    then show ?thesis using assms by (simp add: container_options_blob_error)
  next
    case (Inr so)
    have "url copts = url so"
      using assms unfolding container_options_of_nr [OF nr Inr]
      by (auto split: option.splits if_splits)
    then show ?thesis using Inr by (cases so) simp
  qed
qed

theorem container_url_is_service_url_witness:
  "defaultGetContainerClientOptions example_env (js ''acme'') (Some (js ''override'')) =
     Inr \<lparr>url = js ''https://x/'', container = js ''override''\<rparr> \<and>
   defaultGetBlobStorageClientOptions example_env (js ''acme'') = Inr \<lparr>url = js ''https://x/''\<rparr>"
proof -
  have 1: "defaultGetContainerClientOptions example_env (js ''acme'') (Some (js ''override'')) =
     Inr \<lparr>url = js ''https://x/'', container = js ''override''\<rparr>"
    by code_simp
  from container_url_is_service_url [OF 1] show ?thesis using 1 by simp
qed

section \<open>No container defined\<close>

text \<open>
  Claim C5. For every name whose index \<open>nr\<close> and URL resolve, when the override is absent
  or empty after trimming and \<open>AZURE_STORAGE_CONNECTION_<nr>_CONTAINER\<close> is unset or empty
  after trimming, \<open>defaultGetContainerClientOptions\<close> fails with the error whose message
  is the fixed text \<open>No container defined\<close>. The message does not carry the requested
  name: it is the same text for every name, with no name inserted into it.
\<close>

theorem no_container_defined:
  assumes "getAzureStorageConnectionNrFromEnvVar env name = Inr nr"
    and "defaultGetBlobStorageClientOptions env name = Inr so"
    and "case override of None \<Rightarrow> True | Some c \<Rightarrow> trim c = []"
    and "case env_get env (js ''AZURE_STORAGE_CONNECTION_'' @ number_to_string nr @ js ''_CONTAINER'') of
           None \<Rightarrow> True
         | Some c \<Rightarrow> trim c = []"
  shows "defaultGetContainerClientOptions env name override = Inl (Error (js ''No container defined''))"
proof -
  let ?ckey = "js ''AZURE_STORAGE_CONNECTION_'' @ number_to_string nr @ js ''_CONTAINER''"
  have "effective_container env ?ckey override = map_option trim (env_get env ?ckey)"
    using assms(3) by (cases override) (simp_all add: effective_container_def)
  moreover have "map_option trim (env_get env ?ckey) = None \<or> map_option trim (env_get env ?ckey) = Some []"
    using assms(4) by (cases "env_get env ?ckey") simp_all
  ultimately show ?thesis
    unfolding container_options_of_nr [OF assms(1,2)] by auto
qed

theorem no_container_defined_witness:
  "getAzureStorageConnectionNrFromEnvVar env_no_container (js ''container'') = Inr (Finite 1) \<and>
   defaultGetBlobStorageClientOptions env_no_container (js ''container'') = Inr \<lparr>url = js ''https://x/''\<rparr> \<and>
   trim (js '' '') = [] \<and>
   env_get env_no_container (js ''AZURE_STORAGE_CONNECTION_1_CONTAINER'') = None \<and>
   defaultGetContainerClientOptions env_no_container (js ''container'') (Some (js '' '')) =
     Inl (Error (js ''No container defined''))"
proof -
  have 1: "getAzureStorageConnectionNrFromEnvVar env_no_container (js ''container'') = Inr (Finite 1)"
    by code_simp
  have 2: "defaultGetBlobStorageClientOptions env_no_container (js ''container'') = Inr \<lparr>url = js ''https://x/''\<rparr>"
    by code_simp
  have 3: "trim (js '' '') = []"
    by code_simp
  have k: "js ''AZURE_STORAGE_CONNECTION_'' @ number_to_string (Finite 1) @ js ''_CONTAINER'' =
      js ''AZURE_STORAGE_CONNECTION_1_CONTAINER''"
    by code_simp
  have 4: "env_get env_no_container (js ''AZURE_STORAGE_CONNECTION_1_CONTAINER'') = None"
    by code_simp
  have 5: "case Some (js '' '') of None \<Rightarrow> True | Some c \<Rightarrow> trim c = []"
    using 3 by simp
  have 6: "case env_get env_no_container (js ''AZURE_STORAGE_CONNECTION_'' @ number_to_string (Finite 1) @ js ''_CONTAINER'') of
           None \<Rightarrow> True
         | Some c \<Rightarrow> trim c = []"
    unfolding k 4 by simp
  from no_container_defined [OF 1 2 5 6] show ?thesis using 1 2 3 4 by simp
qed

section \<open>The factory builders\<close>

lemma typeof_object_not_function: "js ''object'' \<noteq> js ''function''"
  by (simp add: js_def)

lemma blob_factory_of_function:
  "createGetBlobServiceClientFactory sdk (JFunction f) =
     Inr (\<lambda>env name.
       case f env name None of
         Inl e \<Rightarrow> Inl e
       | Inr v \<Rightarrow> (case destructure_url v of Inl e \<Rightarrow> Inl e | Inr u \<Rightarrow> fromConnectionString sdk u))"
  by (simp add: createGetBlobServiceClientFactory_def default_parameter_def call_def)

lemma container_factory_of_function:
  "createGetContainerClientFactory sdk (JFunction f) =
     Inr (\<lambda>env name customerContainer.
       case f env name customerContainer of
         Inl e \<Rightarrow> Inl e
       | Inr v \<Rightarrow>
           (case destructure_container_url v of
              Inl e \<Rightarrow> Inl e
            | Inr (c, u) \<Rightarrow>
                (case fromConnectionString sdk u of
                   Inl e \<Rightarrow> Inl e
                 | Inr svc \<Rightarrow> getContainerClient_of sdk svc c)))"
  by (simp add: createGetContainerClientFactory_def default_parameter_def call_def)

lemma blob_factory_of_value:
  assumes "typeof v \<noteq> js ''function''" and "v \<noteq> JUndefined"
  shows "createGetBlobServiceClientFactory sdk v =
     Inr (\<lambda>env name. case destructure_url v of Inl e \<Rightarrow> Inl e | Inr u \<Rightarrow> fromConnectionString sdk u)"
  using assms
  by (cases v) (simp_all add: createGetBlobServiceClientFactory_def default_parameter_def call_def)

lemma container_factory_of_value:
  assumes "typeof v \<noteq> js ''function''" and "v \<noteq> JUndefined"
  shows "createGetContainerClientFactory sdk v =
     Inr (\<lambda>env name customerContainer.
       case destructure_container_url v of
         Inl e \<Rightarrow> Inl e
       | Inr (c, u) \<Rightarrow>
           (case fromConnectionString sdk u of
              Inl e \<Rightarrow> Inl e
            | Inr svc \<Rightarrow> getContainerClient_of sdk svc c))"
  using assms
  by (cases v) (simp_all add: createGetContainerClientFactory_def default_parameter_def call_def)

text \<open>
  Claim C6. For every static options record, a factory builder called with the record
  returns the same provider as the builder called with the constant function that always
  returns the record: the two providers agree on every environment, connection name and
  container override. The provider hands the record's \<open>url\<close> (and \<open>container\<close>) to the
  SDK whatever its arguments are.
\<close>

theorem static_options_as_constant_function:
  "createGetBlobServiceClientFactory sdk (JObject opts) =
     createGetBlobServiceClientFactory sdk (JFunction (\<lambda>env name c. Inr (JObject opts))) \<and>
   createGetBlobServiceClientFactory sdk (JObject opts) =
     Inr (\<lambda>env name. fromConnectionString sdk (Some (url opts))) \<and>
   createGetContainerClientFactory sdk (JObject copts) =
     createGetContainerClientFactory sdk (JFunction (\<lambda>env name c. Inr (JObject copts))) \<and>
   createGetContainerClientFactory sdk (JObject copts) =
     Inr (\<lambda>env name c.
       case fromConnectionString sdk (Some (url copts)) of
         Inl e \<Rightarrow> Inl e
       | Inr svc \<Rightarrow> getContainerClient_of sdk svc (Some (container copts)))"
proof -
  have o: "typeof (JObject x) \<noteq> js ''function''" for x :: 'o
    by (simp add: typeof_object_not_function)
  have b: "createGetBlobServiceClientFactory sdk (JObject opts) =
     Inr (\<lambda>env name. fromConnectionString sdk (Some (url opts)))"
    by (simp add: blob_factory_of_value [OF o] destructure_url_def)
  have b': "createGetBlobServiceClientFactory sdk (JFunction (\<lambda>env name c. Inr (JObject opts))) =
     Inr (\<lambda>env name. fromConnectionString sdk (Some (url opts)))"
    by (simp add: blob_factory_of_function destructure_url_def)
  have c: "createGetContainerClientFactory sdk (JObject copts) =
     Inr (\<lambda>env name c.
       case fromConnectionString sdk (Some (url copts)) of
         Inl e \<Rightarrow> Inl e
       | Inr svc \<Rightarrow> getContainerClient_of sdk svc (Some (container copts)))"
    by (simp add: container_factory_of_value [OF o] destructure_container_url_def)
  have c': "createGetContainerClientFactory sdk (JFunction (\<lambda>env name c. Inr (JObject copts))) =
     Inr (\<lambda>env name c.
       case fromConnectionString sdk (Some (url copts)) of
         Inl e \<Rightarrow> Inl e
       | Inr svc \<Rightarrow> getContainerClient_of sdk svc (Some (container copts)))"
    by (simp add: container_factory_of_function destructure_container_url_def)
  show ?thesis
    by (simp only: b b' c c' simp_thms)
qed

text \<open>
  Claim C7, which the code does not meet. Called with the number 42, neither a function nor
  an options object, each factory builder returns a provider instead of throwing the
  \<open>TypeError\<close> \<open>optionsOrFunc must be a function or object\<close>: the value has been wrapped
  in a function before the check of \<open>typeof getOptions\<close> runs, so the check never fails, for
  any argument. The provider then hands \<open>undefined\<close> to the SDK at every call.
\<close>

theorem factory_construction_never_fails:
  "createGetBlobServiceClientFactory sdk (JNumber (Finite 42)) =
     Inr (\<lambda>env name. fromConnectionString sdk None) \<and>
   createGetContainerClientFactory sdk (JNumber (Finite 42)) =
     Inr (\<lambda>env name c.
       case fromConnectionString sdk None of
         Inl e \<Rightarrow> Inl e
       | Inr svc \<Rightarrow> getContainerClient_of sdk svc None) \<and>
   (\<forall>arg e. createGetBlobServiceClientFactory sdk arg \<noteq> Inl e) \<and>
   (\<forall>arg e. createGetContainerClientFactory sdk arg \<noteq> Inl e)"
proof -
  have n: "typeof (JNumber (Finite 42) :: 'o js_value) \<noteq> js ''function''"
    by (simp add: js_def)
  have 1: "createGetBlobServiceClientFactory sdk (JNumber (Finite 42)) =
     Inr (\<lambda>env name. fromConnectionString sdk None)"
    by (simp add: blob_factory_of_value [OF n] destructure_url_def)
  have 2: "createGetContainerClientFactory sdk (JNumber (Finite 42)) =
     Inr (\<lambda>env name c.
       case fromConnectionString sdk None of
         Inl e \<Rightarrow> Inl e
       | Inr svc \<Rightarrow> getContainerClient_of sdk svc None)"
    by (simp add: container_factory_of_value [OF n] destructure_container_url_def)
  have f: "typeof (if typeof v = js ''function'' then v else JFunction g) = js ''function''"
    for v :: "'o js_value" and g
    by simp
  have 3: "createGetBlobServiceClientFactory sdk arg \<noteq> Inl e" for arg e
    unfolding createGetBlobServiceClientFactory_def Let_def f by simp
  have 4: "createGetContainerClientFactory sdk arg \<noteq> Inl e" for arg e
    unfolding createGetContainerClientFactory_def Let_def f by simp
  show ?thesis
    using 1 2 3 4 by blast
qed

section \<open>The example scenario\<close>

text \<open>
  Claim C8. In the environment of the example, \<open>defaultGetContainerClientOptions\<close>
  resolves the name \<open>acme\<close> to the URL \<open>https://x/\<close> and the container \<open>logs\<close>, and with
  the override \<open>override\<close> to the same URL and the container \<open>override\<close>; for the name
  \<open>unknown\<close> it fails with the error that names \<open>unknown\<close>. The exported provider
  \<open>getContainerClient\<close> is built without error, hands exactly these options to the SDK,
  and fails with the same error for \<open>unknown\<close>.
\<close>

theorem example_scenario:
  "defaultGetContainerClientOptions example_env (js ''acme'') None =
     Inr \<lparr>url = js ''https://x/'', container = js ''logs''\<rparr> \<and>
   defaultGetContainerClientOptions example_env (js ''acme'') (Some (js ''override'')) =
     Inr \<lparr>url = js ''https://x/'', container = js ''override''\<rparr> \<and>
   defaultGetContainerClientOptions example_env (js ''unknown'') None =
     Inl (Error (js ''No azure storage connection unknown found or defined'')) \<and>
   (\<exists>p. getContainerClient sdk = Inr p \<and>
      p example_env (js ''acme'') None =
        (case fromConnectionString sdk (Some (js ''https://x/'')) of
           Inl e \<Rightarrow> Inl e
         | Inr svc \<Rightarrow> getContainerClient_of sdk svc (Some (js ''logs''))) \<and>
      p example_env (js ''acme'') (Some (js ''override'')) =
        (case fromConnectionString sdk (Some (js ''https://x/'')) of
           Inl e \<Rightarrow> Inl e
         | Inr svc \<Rightarrow> getContainerClient_of sdk svc (Some (js ''override''))) \<and>
      p example_env (js ''unknown'') None =
        Inl (Error (js ''No azure storage connection unknown found or defined'')))"
proof -
  have 1: "defaultGetContainerClientOptions example_env (js ''acme'') None =
     Inr \<lparr>url = js ''https://x/'', container = js ''logs''\<rparr>"
    by code_simp
  have 2: "defaultGetContainerClientOptions example_env (js ''acme'') (Some (js ''override'')) =
     Inr \<lparr>url = js ''https://x/'', container = js ''override''\<rparr>"
    by code_simp
  have 3: "defaultGetContainerClientOptions example_env (js ''unknown'') None =
     Inl (Error (js ''No azure storage connection unknown found or defined''))"
    by code_simp
  have p: "getContainerClient sdk =
     Inr (\<lambda>env name customerContainer.
       case map_sum id JObject (defaultGetContainerClientOptions env name customerContainer) of
         Inl e \<Rightarrow> Inl e
       | Inr v \<Rightarrow>
           (case destructure_container_url v of
              Inl e \<Rightarrow> Inl e
            | Inr (c, u) \<Rightarrow>
                (case fromConnectionString sdk u of
                   Inl e \<Rightarrow> Inl e
                 | Inr svc \<Rightarrow> getContainerClient_of sdk svc c)))"
    unfolding getContainerClient_def defaultGetContainerClientOptions_value_def
    by (rule container_factory_of_function)
  show ?thesis
    unfolding p by (simp add: 1 2 3 destructure_container_url_def)
qed

section \<open>Leading zeros in the declaration key\<close>

text \<open>
  Claim C9, amended. For every declaration key \<open>AZURE_STORAGE_CONNECTION_<digits>\<close> that is
  the first to declare the name and whose digits, leading zeros included, denote an
  integer \<open>n\<close> below \<open>2 ^ 53\<close>, the resolved index is \<open>n\<close>, and the URL and the container
  are read under \<open>AZURE_STORAGE_CONNECTION_<n>_URL\<close> and
  \<open>AZURE_STORAGE_CONNECTION_<n>_CONTAINER\<close> with \<open>n\<close> in decimal without leading zeros,
  not under the digits of the declaration key.
\<close>

theorem leading_zeros_canonical_keys:
  assumes "first_declaration env name = Some (js ''AZURE_STORAGE_CONNECTION_'' @ ds)"
    and "digits_value 10 ds = n"
    and "n < 2 ^ 53"
  shows "getAzureStorageConnectionNrFromEnvVar env name = Inr (Finite (int n)) \<and>
         defaultGetBlobStorageClientOptions env name =
           (case env_get env (url_key n) of
              None \<Rightarrow> Inl (Error (js ''Azure storage connection '' @ name @ js '' not found''))
            | Some u \<Rightarrow>
                if trim u = [] then Inl (Error (js ''Azure storage connection '' @ name @ js '' not found''))
                else Inr \<lparr>url = trim u\<rparr>) \<and>
         defaultGetContainerClientOptions env name override =
           (case defaultGetBlobStorageClientOptions env name of
              Inl e \<Rightarrow> Inl e
            | Inr so \<Rightarrow>
                (case effective_container env (container_key n) override of
                   None \<Rightarrow> Inl (Error (js ''No container defined''))
                 | Some c \<Rightarrow> if c = [] then Inl (Error (js ''No container defined''))
                             else Inr \<lparr>url = url so, container = c\<rparr>))"
proof -
  have nr: "getAzureStorageConnectionNrFromEnvVar env name = Inr (Finite (int n))"
    using nr_safe [OF assms(1)] assms(2,3) by simp
  have keys:
    "js ''AZURE_STORAGE_CONNECTION_'' @ number_to_string (Finite (int n)) @ js ''_URL'' = url_key n"
    "js ''AZURE_STORAGE_CONNECTION_'' @ number_to_string (Finite (int n)) @ js ''_CONTAINER'' = container_key n"
    using number_to_string_safe_key [OF assms(3)] by simp_all
  have b: "defaultGetBlobStorageClientOptions env name =
           (case env_get env (url_key n) of
              None \<Rightarrow> Inl (Error (js ''Azure storage connection '' @ name @ js '' not found''))
            | Some u \<Rightarrow>
                if trim u = [] then Inl (Error (js ''Azure storage connection '' @ name @ js '' not found''))
                else Inr \<lparr>url = trim u\<rparr>)"
    using blob_options_of_nr [OF nr] unfolding keys .
  have c: "defaultGetContainerClientOptions env name override =
           (case defaultGetBlobStorageClientOptions env name of
              Inl e \<Rightarrow> Inl e
            | Inr so \<Rightarrow>
                (case effective_container env (container_key n) override of
                   None \<Rightarrow> Inl (Error (js ''No container defined''))
                 | Some c \<Rightarrow> if c = [] then Inl (Error (js ''No container defined''))
                             else Inr \<lparr>url = url so, container = c\<rparr>))"
  proof (cases "defaultGetBlobStorageClientOptions env name")
    case (Inl e)
    then show ?thesis by (simp add: container_options_blob_error)
  next
    case (Inr so)
    show ?thesis
      using container_options_of_nr [OF nr Inr, of override] unfolding keys by (simp add: Inr)
  qed
  show ?thesis using nr b c by blast
qed

theorem leading_zeros_canonical_keys_witness:
  "first_declaration env_leading_zeros (js ''acme'') = Some (js ''AZURE_STORAGE_CONNECTION_'' @ js ''007'') \<and>
   digits_value 10 (js ''007'') = 7 \<and>
   (7::nat) < 2 ^ 53 \<and>
   url_key 7 = js ''AZURE_STORAGE_CONNECTION_7_URL'' \<and>
   container_key 7 = js ''AZURE_STORAGE_CONNECTION_7_CONTAINER'' \<and>
   getAzureStorageConnectionNrFromEnvVar env_leading_zeros (js ''acme'') = Inr (Finite 7) \<and>
   defaultGetBlobStorageClientOptions env_leading_zeros (js ''acme'') = Inr \<lparr>url = js ''https://x/''\<rparr> \<and>
   defaultGetContainerClientOptions env_leading_zeros (js ''acme'') None =
     Inr \<lparr>url = js ''https://x/'', container = js ''logs''\<rparr>"
proof -
  have 1: "first_declaration env_leading_zeros (js ''acme'') = Some (js ''AZURE_STORAGE_CONNECTION_'' @ js ''007'')"
    by code_simp
  have 2: "digits_value 10 (js ''007'') = 7"
    by code_simp
  have 3: "(7::nat) < 2 ^ 53"
    by simp
  have k: "url_key 7 = js ''AZURE_STORAGE_CONNECTION_7_URL''"
    "container_key 7 = js ''AZURE_STORAGE_CONNECTION_7_CONTAINER''"
    by code_simp+
  have u: "env_get env_leading_zeros (js ''AZURE_STORAGE_CONNECTION_7_URL'') = Some (js ''https://x/'')"
    "trim (js ''https://x/'') = js ''https://x/''" "js ''https://x/'' \<noteq> []"
    by code_simp+
  have c: "effective_container env_leading_zeros (js ''AZURE_STORAGE_CONNECTION_7_CONTAINER'') None = Some (js ''logs'')"
    "js ''logs'' \<noteq> []"
    by code_simp+
  note t = leading_zeros_canonical_keys [OF 1 2 3, of None, unfolded k]
  have b: "defaultGetBlobStorageClientOptions env_leading_zeros (js ''acme'') = Inr \<lparr>url = js ''https://x/''\<rparr>"
    using t by (simp add: u)
  have d: "defaultGetContainerClientOptions env_leading_zeros (js ''acme'') None =
     Inr \<lparr>url = js ''https://x/'', container = js ''logs''\<rparr>"
    using t by (simp add: b c)
  show ?thesis using 1 2 k t b d by simp
qed

text \<open>
  As the claim is stated, for every digits segment, it fails where the segment denotes
  an integer that is not a double: \<open>parseInt\<close> rounds \<open>09007199254740993\<close> to
  \<open>9007199254740992\<close>, the URL is looked up under that number, and the URL stored under
  the canonical decimal form of the segment's integer is not found.
\<close>

theorem leading_zeros_counterexample:
  "first_declaration env_leading_zero_large (js ''acme'') =
     Some (js ''AZURE_STORAGE_CONNECTION_'' @ js ''09007199254740993'') \<and>
   digits_value 10 (js ''09007199254740993'') = 9007199254740993 \<and>
   env_get env_leading_zero_large (url_key 9007199254740993) = Some (js ''https://x/'') \<and>
   env_get env_leading_zero_large (container_key 9007199254740993) = Some (js ''logs'') \<and>
   getAzureStorageConnectionNrFromEnvVar env_leading_zero_large (js ''acme'') = Inr (Finite 9007199254740992) \<and>
   defaultGetBlobStorageClientOptions env_leading_zero_large (js ''acme'') =
     Inl (Error (js ''Azure storage connection acme not found''))"
proof -
  have fd: "first_declaration env_leading_zero_large (js ''acme'') =
     Some (js ''AZURE_STORAGE_CONNECTION_'' @ js ''09007199254740993'')"
    by code_simp
  have dv: "digits_value 10 (js ''09007199254740993'') = 9007199254740993"
    by (simp add: digits_value_def js_def digit_of_def)
  have d: "decimal 9007199254740993 = js ''9007199254740993''"
    by (simp add: decimal.simps digit_char_def js_def)
  have e: "env_get env_leading_zero_large (url_key 9007199254740993) = Some (js ''https://x/'')"
    "env_get env_leading_zero_large (container_key 9007199254740993) = Some (js ''logs'')"
    by (simp_all add: env_get_def env_leading_zero_large_def url_key_def container_key_def d js_def)
  have nr: "getAzureStorageConnectionNrFromEnvVar env_leading_zero_large (js ''acme'') = Inr (Finite 9007199254740992)"
    using nr_first_declaration [OF fd]
    by (simp add: dv to_number_def round_to_double_2_53_1)
  have b: "defaultGetBlobStorageClientOptions env_leading_zero_large (js ''acme'') =
      Inl (Error (js ''Azure storage connection acme not found''))"
    unfolding blob_options_of_nr [OF nr] number_to_string_2_53
    by (simp add: env_get_def env_leading_zero_large_def js_def)
  show ?thesis
    by (simp only: fd dv e nr b simp_thms)
qed

end
